theory Spec2Isabelle
  imports Complex_Main "HOL-Library.Multiset"
begin

section \<open>Serverless image handler: a shallow embedding\<close>

text \<open>
  The theory follows the TypeScript sources of the image handler: the class
  \<open>ImageHandler\<close> (\<open>process\<close>, \<open>applyEdits\<close>, \<open>applyFormatting\<close>,
  \<open>convertHexToRgb\<close>, \<open>generateImageId\<close>), the helper classes \<open>S3Operations\<close> and
  \<open>DbOperations\<close>, and the Lambda entry point (\<open>handler\<close>, \<open>handleRequest\<close>,
  \<open>handleS3Event\<close>).

  Conventions.
  \<^item> A JavaScript string is a \<open>string\<close>; \<open>charCodeAt\<close> is \<open>of_char\<close>, so the model
    covers strings of code units below 256.
  \<^item> A \<open>Buffer\<close> is a list of bytes.
  \<^item> A thrown value is the left injection of a sum; \<open>try/catch\<close> is a case split on it.
  \<^item> An \<open>await\<close> is sequential composition: every function runs to completion.
  \<^item> Functions of the platform that the sources call but do not define (the Sharp image
    engine, \<open>JSON.stringify\<close>, the clock) are fields of the record \<open>runtime\<close>, and the
    theorems hold for every runtime.
\<close>

subsection \<open>Hexadecimal colours\<close>

record rgb =
  r :: nat
  g :: nat
  b :: nat
  alpha :: "nat option"

text \<open>The character class \<open>[a-f\d]\<close> under the flag \<open>i\<close>.\<close>

definition hex_class :: "char \<Rightarrow> bool" where
  "hex_class c = (c \<in> set ''0123456789abcdefABCDEF'')"

text \<open>The prefix \<open>^#?\<close> of both patterns: the rest of the pattern must match what follows an
  optional leading hash sign. A hash sign is not in the class, so giving it back never helps.\<close>

fun after_hash :: "string \<Rightarrow> string" where
  "after_hash (c # cs) = (if c = CHR ''#'' then cs else c # cs)"
| "after_hash [] = []"

text \<open>\<open>/^#?([a-f\d])([a-f\d])([a-f\d])$/i\<close>: the three captured groups.\<close>

definition shorthandRegex :: "string \<Rightarrow> (char \<times> char \<times> char) option" where
  "shorthandRegex hex =
     (case after_hash hex of
        [x, y, z] \<Rightarrow> if hex_class x \<and> hex_class y \<and> hex_class z then Some (x, y, z) else None
      | _ \<Rightarrow> None)"

text \<open>\<open>/^#?([a-f\d]{2})([a-f\d]{2})([a-f\d]{2})$/i\<close>: the three captured groups.\<close>

definition fullRegex :: "string \<Rightarrow> (string \<times> string \<times> string) option" where
  "fullRegex hexValue =
     (case after_hash hexValue of
        [x1, x2, y1, y2, z1, z2] \<Rightarrow>
          if list_all hex_class [x1, x2, y1, y2, z1, z2]
          then Some ([x1, x2], [y1, y2], [z1, z2]) else None
      | _ \<Rightarrow> None)"

definition digit16 :: "char \<Rightarrow> nat" where
  "digit16 c =
     (let n = of_char c :: nat in
      if 48 \<le> n \<and> n \<le> 57 then n - 48
      else if 97 \<le> n \<and> n \<le> 102 then n - 87
      else if 65 \<le> n \<and> n \<le> 70 then n - 55
      else 0)"

text \<open>\<open>parseInt(s, 16)\<close> on a string of hexadecimal digits.\<close>

definition parseInt16 :: "string \<Rightarrow> nat" where
  "parseInt16 s = foldl (\<lambda>acc c. 16 * acc + digit16 c) 0 s"

definition convertHexToRgb :: "string \<Rightarrow> rgb" where
  "convertHexToRgb hex =
     (let hexValue = (case shorthandRegex hex of
                        Some (x, y, z) \<Rightarrow> [x, x, y, y, z, z]
                      | None \<Rightarrow> hex)
      in case fullRegex hexValue of
           Some (x, y, z) \<Rightarrow> \<lparr>r = parseInt16 x, g = parseInt16 y, b = parseInt16 z, alpha = None\<rparr>
         | None \<Rightarrow> \<lparr>r = 0, g = 0, b = 0, alpha = None\<rparr>)"

text \<open>The specification's notion of a colour string: three or six hexadecimal digits, with or
  without a leading hash sign.\<close>

definition hex_digits_3_or_6 :: "string \<Rightarrow> bool" where
  "hex_digits_3_or_6 ds =
     ((length ds = 3 \<or> length ds = 6) \<and> list_all (\<lambda>c. c \<in> set ''0123456789abcdefABCDEF'') ds)"

definition hex_colour_spec :: "string \<Rightarrow> bool" where
  "hex_colour_spec s =
     (hex_digits_3_or_6 s \<or>
      (case s of [] \<Rightarrow> False | c # ds \<Rightarrow> c = CHR ''#'' \<and> hex_digits_3_or_6 ds))"

text \<open>The specification's value of a hexadecimal digit: \<open>0\<close> to \<open>9\<close>, then \<open>a\<close> to
  \<open>f\<close> in either case for ten to fifteen.\<close>

definition hex_digit_value :: "char \<Rightarrow> nat" where
  "hex_digit_value c =
     (case map_of [(CHR ''0'', 0), (CHR ''1'', 1), (CHR ''2'', 2), (CHR ''3'', 3), (CHR ''4'', 4),
                   (CHR ''5'', 5), (CHR ''6'', 6), (CHR ''7'', 7), (CHR ''8'', 8), (CHR ''9'', 9),
                   (CHR ''a'', 10), (CHR ''b'', 11), (CHR ''c'', 12), (CHR ''d'', 13),
                   (CHR ''e'', 14), (CHR ''f'', 15), (CHR ''A'', 10), (CHR ''B'', 11),
                   (CHR ''C'', 12), (CHR ''D'', 13), (CHR ''E'', 14), (CHR ''F'', 15)] c of
        Some n \<Rightarrow> n
      | None \<Rightarrow> 0)"

subsection \<open>Fingerprint of a request\<close>

text \<open>\<open>ToInt32\<close>: the value modulo \<open>2^32\<close>, read as a signed 32-bit integer.\<close>

definition toInt32 :: "int \<Rightarrow> int" where
  "toInt32 x = (x + 2147483648) mod 4294967296 - 2147483648"

text \<open>The body of the loop: \<open>hash = ((hash << 5) - hash) + char; hash = hash & hash\<close>. The shift
  yields a 32-bit integer; the subtraction and the addition are exact in double precision.\<close>

definition hash_step :: "int \<Rightarrow> char \<Rightarrow> int" where
  "hash_step hash c = toInt32 ((toInt32 (toInt32 hash * 32) - hash) + int (of_char c))"

definition simple_hash :: "string \<Rightarrow> int" where
  "simple_hash requestString = foldl hash_step 0 requestString"

definition hex_digit :: "nat \<Rightarrow> char" where
  "hex_digit d = ''0123456789abcdef'' ! (d mod 16)"

text \<open>\<open>Number.prototype.toString(16)\<close> on a natural number.\<close>

fun toString16 :: "nat \<Rightarrow> string" where
  "toString16 n = (if n < 16 then [hex_digit n] else toString16 (n div 16) @ [hex_digit (n mod 16)])"

declare toString16.simps [simp del]

definition dec_digit :: "nat \<Rightarrow> char" where
  "dec_digit d = ''0123456789'' ! (d mod 10)"

text \<open>The conversion of a natural number to a string, as in a template literal or a
  concatenation.\<close>

fun toString10 :: "nat \<Rightarrow> string" where
  "toString10 n = (if n < 10 then [dec_digit n] else toString10 (n div 10) @ [dec_digit (n mod 10)])"

declare toString10.simps [simp del]

text \<open>\<open>s.includes(p)\<close> on strings and buffers: \<open>p\<close> occurs in \<open>s\<close> as a contiguous block.\<close>

fun includes_list :: "'a list \<Rightarrow> 'a list \<Rightarrow> bool" where
  "includes_list [] p = (p = [])"
| "includes_list (c # cs) p = (take (length p) (c # cs) = p \<or> includes_list cs p)"

text \<open>\<open>String.prototype.toLowerCase\<close> on a code unit below 256: the capitals \<open>A\<close> to \<open>Z\<close>
  and the capitals of Latin-1 (192 to 222, without the multiplication sign 215) are moved by
  32; every other code unit is kept.\<close>

definition toLowerCase_char :: "char \<Rightarrow> char" where
  "toLowerCase_char c =
     (let n = of_char c :: nat in
      if (65 \<le> n \<and> n \<le> 90) \<or> (192 \<le> n \<and> n \<le> 222 \<and> n \<noteq> 215) then char_of (n + 32)
      else c)"

definition toLowerCase :: "string \<Rightarrow> string" where
  "toLowerCase s = map toLowerCase_char s"

text \<open>\<open>s.split(sep).pop()\<close>: what follows the last separator.\<close>

definition split_pop :: "char \<Rightarrow> string \<Rightarrow> string" where
  "split_pop sep s = rev (takeWhile (\<lambda>c. c \<noteq> sep) (rev s))"

text \<open>\<open>s.split(sep)[0]\<close>: what precedes the first separator.\<close>

definition split_first :: "char \<Rightarrow> string \<Rightarrow> string" where
  "split_first sep s = takeWhile (\<lambda>c. c \<noteq> sep) s"

text \<open>\<open>x || d\<close> on an optional string: the empty string and \<open>undefined\<close> are falsy.\<close>

definition or_default :: "string option \<Rightarrow> string \<Rightarrow> string" where
  "or_default x d = (case x of None \<Rightarrow> d | Some s \<Rightarrow> if s = [] then d else s)"

subsection \<open>Values, edits and requests\<close>

text \<open>The parameters of an edit are untyped in the sources (\<open>Record<AllowlistedEdit, any>\<close>).
  A JavaScript value is modelled structurally; numbers are rationals, so \<open>NaN\<close> and the
  infinities are left out. An object is the list of its own properties in insertion order.\<close>

datatype jsval =
    JUndefined
  | JNull
  | JBool bool
  | JNum rat
  | JStr string
  | JBuffer "nat list"
  | JArr "jsval list"
  | JObj "(string \<times> jsval) list"

type_synonym buffer = "nat list"

type_synonym ImageEdits = "(string \<times> jsval) list"

text \<open>\<open>o.k\<close> on an object given by its property list.\<close>

definition obj_get :: "(string \<times> jsval) list \<Rightarrow> string \<Rightarrow> jsval" where
  "obj_get kvs k = (case map_of kvs k of Some v \<Rightarrow> v | None \<Rightarrow> JUndefined)"

text \<open>\<open>v.k\<close> on a value that is not \<open>null\<close> or \<open>undefined\<close>, for the property names the
  sources read (none of them is a built-in property of strings, arrays or numbers).\<close>

definition val_get :: "jsval \<Rightarrow> string \<Rightarrow> jsval" where
  "val_get v k = (case v of JObj kvs \<Rightarrow> obj_get kvs k | _ \<Rightarrow> JUndefined)"

definition truthy :: "jsval \<Rightarrow> bool" where
  "truthy v =
     (case v of
        JUndefined \<Rightarrow> False
      | JNull \<Rightarrow> False
      | JBool x \<Rightarrow> x
      | JNum n \<Rightarrow> n \<noteq> 0
      | JStr s \<Rightarrow> s \<noteq> []
      | JBuffer _ \<Rightarrow> True
      | JArr _ \<Rightarrow> True
      | JObj _ \<Rightarrow> True)"

text \<open>The interface \<open>ImageRequestInfo\<close>. The field \<open>ContentType\<close> stands for the property that
  \<open>process\<close> tests with \<open>"ContentType" in imageRequestInfo\<close>: \<open>None\<close> when the object has no
  such property, \<open>Some v\<close> when it has, with \<open>v = None\<close> for the value \<open>undefined\<close>.\<close>

record ImageRequestInfo =
  requestType :: string
  bucket :: string
  key :: string
  edits :: "ImageEdits option"
  originalImage :: buffer
  headers :: "(string \<times> string option) list option"
  contentType :: "string option"
  expires :: "string option"
  lastModified :: "string option"
  cacheControl :: "string option"
  outputFormat :: "string option"
  effort :: "nat option"
  secondsToExpiry :: "nat option"
  ContentType :: "string option option"

text \<open>\<open>JSON.stringify\<close> is a function of the platform; the fingerprint is defined for any
  serialisation of the edits.\<close>

definition editString :: "(jsval \<Rightarrow> string) \<Rightarrow> ImageRequestInfo \<Rightarrow> string" where
  "editString stringify req = (case edits req of Some e \<Rightarrow> stringify (JObj e) | None \<Rightarrow> [])"

definition generateImageId :: "(jsval \<Rightarrow> string) \<Rightarrow> ImageRequestInfo \<Rightarrow> string" where
  "generateImageId stringify req =
     (let requestString = bucket req @ ''/'' @ key req @ ''/'' @ editString stringify req @ ''/'' @
                          or_default (outputFormat req) [];
          hash = simple_hash requestString;
          hashHex = toString16 (nat \<bar>hash\<bar>);
          ext = or_default (map_option toLowerCase (outputFormat req)) ''jpg''
      in or_default (Some (split_first (CHR ''.'') (split_pop (CHR ''/'') (key req)))) ''image'' @
         ''-'' @ hashHex @ ''.'' @ ext)"

subsection \<open>Errors and the enumerations of \<open>lib/enums.ts\<close>\<close>

text \<open>Modelled from the spec: the enumeration \<open>StatusCodes\<close> is declared in \<open>lib/enums.ts\<close>,
  which is not among the sources. Its members are those the sources name; their numbers are the
  statuses of section 6 of the specification.\<close>

datatype StatusCodes = OK | BAD_REQUEST | REQUEST_TOO_LONG | INTERNAL_SERVER_ERROR | TIMEOUT

fun status_value :: "StatusCodes \<Rightarrow> nat" where
  "status_value OK = 200"
| "status_value BAD_REQUEST = 400"
| "status_value REQUEST_TOO_LONG = 413"
| "status_value INTERNAL_SERVER_ERROR = 500"
| "status_value TIMEOUT = 504"

text \<open>Modelled from the spec: \<open>Object.values(ImageFormatTypes)\<close>, the supported formats. The
  enumeration is declared in \<open>lib/enums.ts\<close>; the specification lists its values.\<close>

definition ImageFormatTypes :: "string list" where
  "ImageFormatTypes = [''jpeg'', ''png'', ''webp'', ''tiff'', ''gif'', ''avif'']"

text \<open>A thrown value: an \<open>ImageHandlerError\<close> with its status, code and message, or any other
  error object with its name and message.\<close>

datatype js_error =
    ImageHandlerError StatusCodes string string
  | Error string string

definition TypeError :: js_error where
  "TypeError = Error ''TypeError'' ''not a function''"

text \<open>\<open>try { ... }\<close> around a sequence of statements: the first throw ends the sequence.\<close>

definition bindE :: "'e + 'a \<Rightarrow> ('a \<Rightarrow> 'e + 'c) \<Rightarrow> 'e + 'c" where
  "bindE m f = (case m of Inl e \<Rightarrow> Inl e | Inr x \<Rightarrow> f x)"

subsection \<open>The Sharp image engine\<close>

text \<open>A Sharp object is a pipeline: the input buffer, the constructor's \<open>failOn\<close> option and the
  method calls queued so far, each with its arguments.\<close>

datatype sharp_op = Call string "jsval list"

record sharp =
  sharp_input :: buffer
  sharp_failOn :: "string option"
  sharp_ops :: "sharp_op list"

definition Sharp :: "buffer \<Rightarrow> string option \<Rightarrow> sharp" where
  "Sharp buf opt = \<lparr>sharp_input = buf, sharp_failOn = opt, sharp_ops = []\<rparr>"

record sharp_metadata =
  meta_format :: "string option"
  meta_width :: "nat option"
  meta_height :: "nat option"

text \<open>The interpolated fields of the watermark's SVG template, in the order of the template.
  \<open>x\<close> and \<open>y\<close> are the results of \<open>getTextPosition\<close>.\<close>

datatype text_position = Padding jsval | Hundred_minus jsval | Fifty

record watermark_svg =
  svg_fill :: jsval
  svg_opacity :: jsval
  svg_font_size :: jsval
  svg_x :: text_position
  svg_y :: text_position
  svg_text_anchor :: string
  svg_dominant_baseline :: string
  svg_text :: jsval

text \<open>The platform. \<open>sharp_accepts\<close> tells whether a method of the pipeline accepts its arguments
  (it throws otherwise); \<open>metadata\<close> and \<open>toBuffer\<close> are the two asynchronous methods, \<open>None\<close>
  when the promise is rejected; \<open>svg_buffer\<close> is \<open>Buffer.from\<close> of the template literal.\<close>

record runtime =
  JSON_stringify :: "jsval \<Rightarrow> string"
  Number :: "jsval \<Rightarrow> jsval"
  sharp_accepts :: "sharp_op \<Rightarrow> bool"
  metadata :: "sharp \<Rightarrow> sharp_metadata option"
  toBuffer :: "sharp \<Rightarrow> buffer option"
  svg_buffer :: "watermark_svg \<Rightarrow> buffer"
  now :: string

subsection \<open>\<open>ImageHandler.applyEdits\<close>\<close>

text \<open>The steps of the pipeline, named after the edit that triggers them. The list \<open>steps\<close> of
  the state records, for the proofs, which steps have queued a call so far.\<close>

datatype edit_step =
    Step_resize | Step_grayscale | Step_flip | Step_flop | Step_rotate | Step_background
  | Step_flatten | Step_rgb | Step_normalize | Step_threshold | Step_sharpen | Step_blur
  | Step_extend | Step_watermark | Step_jpeg | Step_png | Step_webp | Step_tiff | Step_gif
  | Step_avif

record edit_state =
  image :: sharp
  steps :: "edit_step list"

text \<open>\<open>image.m(args)\<close>: the method throws when it rejects its arguments, and queues the call
  otherwise.\<close>

definition sharp_call :: "runtime \<Rightarrow> sharp_op \<Rightarrow> sharp \<Rightarrow> js_error + sharp" where
  "sharp_call rt opn img =
     (if sharp_accepts rt opn then Inr (img\<lparr>sharp_ops := sharp_ops img @ [opn]\<rparr>)
      else Inl (Error ''Error'' ''invalid parameters''))"

text \<open>\<open>image = image.m(args)\<close> as a step of \<open>applyEdits\<close>.\<close>

definition call :: "runtime \<Rightarrow> edit_step \<Rightarrow> sharp_op \<Rightarrow> edit_state \<Rightarrow> js_error + edit_state" where
  "call rt s opn st =
     bindE (sharp_call rt opn (image st)) (\<lambda>img. Inr \<lparr>image = img, steps = steps st @ [s]\<rparr>)"

definition rgb_val :: "rgb \<Rightarrow> jsval" where
  "rgb_val c =
     JObj ([(''r'', JNum (of_nat (r c))), (''g'', JNum (of_nat (g c))), (''b'', JNum (of_nat (b c)))] @
           (case alpha c of None \<Rightarrow> [] | Some a \<Rightarrow> [(''alpha'', JNum (of_nat a))]))"

definition black :: rgb where
  "black = \<lparr>r = 0, g = 0, b = 0, alpha = None\<rparr>"

definition transparent_black :: rgb where
  "transparent_black = \<lparr>r = 0, g = 0, b = 0, alpha = Some 0\<rparr>"

text \<open>\<open>this.convertHexToRgb(v)\<close> on a truthy value: a value that is not a string has no method
  \<open>replace\<close>.\<close>

definition convertHexToRgb_val :: "jsval \<Rightarrow> js_error + rgb" where
  "convertHexToRgb_val v = (case v of JStr s \<Rightarrow> Inr (convertHexToRgb s) | _ \<Rightarrow> Inl TypeError)"

text \<open>\<open>v ? this.convertHexToRgb(v) : d\<close>\<close>

definition colour_or :: "jsval \<Rightarrow> rgb \<Rightarrow> js_error + rgb" where
  "colour_or v d = (if truthy v then convertHexToRgb_val v else Inr d)"

text \<open>\<open>v ?? d\<close>\<close>

definition nullish :: "jsval \<Rightarrow> jsval \<Rightarrow> jsval" where
  "nullish v d = (if v = JUndefined \<or> v = JNull then d else v)"

text \<open>A destructuring default, \<open>{ k = d } = o\<close>: the default replaces \<open>undefined\<close> only.\<close>

definition dflt :: "jsval \<Rightarrow> jsval \<Rightarrow> jsval" where
  "dflt v d = (if v = JUndefined then d else v)"

definition resize_step :: "runtime \<Rightarrow> ImageEdits \<Rightarrow> edit_state \<Rightarrow> js_error + edit_state" where
  "resize_step rt e st =
     (let rz = obj_get e ''resize'' in
      if truthy rz then
        if truthy (val_get rz ''fit'') \<and> val_get rz ''fit'' \<noteq> JStr ''cover'' then
          bindE (colour_or (val_get rz ''background'') transparent_black) (\<lambda>bg.
            call rt Step_resize
              (Call ''resize''
                 [JObj [(''width'', val_get rz ''width''), (''height'', val_get rz ''height''),
                        (''fit'', val_get rz ''fit''),
                        (''position'', nullish (val_get rz ''position'') (JStr ''center'')),
                        (''background'', rgb_val bg)]]) st)
        else
          call rt Step_resize
            (Call ''resize''
               [val_get rz ''width'', val_get rz ''height'',
                JObj [(''fit'', nullish (val_get rz ''fit'') (JStr ''cover'')),
                      (''position'', nullish (val_get rz ''position'') (JStr ''center''))]]) st
      else Inr st)"

definition grayscale_step :: "runtime \<Rightarrow> ImageEdits \<Rightarrow> edit_state \<Rightarrow> js_error + edit_state" where
  "grayscale_step rt e st =
     (if truthy (obj_get e ''grayscale'') then call rt Step_grayscale (Call ''grayscale'' []) st
      else Inr st)"

definition flip_step :: "runtime \<Rightarrow> ImageEdits \<Rightarrow> edit_state \<Rightarrow> js_error + edit_state" where
  "flip_step rt e st =
     (if truthy (obj_get e ''flip'') then call rt Step_flip (Call ''flip'' []) st else Inr st)"

definition flop_step :: "runtime \<Rightarrow> ImageEdits \<Rightarrow> edit_state \<Rightarrow> js_error + edit_state" where
  "flop_step rt e st =
     (if truthy (obj_get e ''flop'') then call rt Step_flop (Call ''flop'' []) st else Inr st)"

definition rotate_step :: "runtime \<Rightarrow> ImageEdits \<Rightarrow> edit_state \<Rightarrow> js_error + edit_state" where
  "rotate_step rt e st =
     (if obj_get e ''rotate'' \<noteq> JUndefined then
        bindE (colour_or (obj_get e ''background'') transparent_black) (\<lambda>bg.
          call rt Step_rotate
            (Call ''rotate'' [Number rt (obj_get e ''rotate''), JObj [(''background'', rgb_val bg)]]) st)
      else Inr st)"

definition background_step :: "runtime \<Rightarrow> ImageEdits \<Rightarrow> edit_state \<Rightarrow> js_error + edit_state" where
  "background_step rt e st =
     (if truthy (obj_get e ''background'') then
        bindE (convertHexToRgb_val (obj_get e ''background'')) (\<lambda>bg.
          call rt Step_background (Call ''flatten'' [JObj [(''background'', rgb_val bg)]]) st)
      else Inr st)"

definition flatten_step :: "runtime \<Rightarrow> ImageEdits \<Rightarrow> edit_state \<Rightarrow> js_error + edit_state" where
  "flatten_step rt e st =
     (if truthy (obj_get e ''flatten'') then
        bindE (colour_or (val_get (obj_get e ''flatten'') ''background'') black) (\<lambda>bg.
          call rt Step_flatten (Call ''flatten'' [JObj [(''background'', rgb_val bg)]]) st)
      else Inr st)"

text \<open>\<open>Object.values(v)\<close> on a truthy value.\<close>

definition Object_values :: "jsval \<Rightarrow> jsval list" where
  "Object_values v =
     (case v of
        JObj kvs \<Rightarrow> map snd kvs
      | JArr xs \<Rightarrow> xs
      | JStr s \<Rightarrow> map (\<lambda>c. JStr [c]) s
      | _ \<Rightarrow> [])"

text \<open>\<open>{ ...v }\<close>: the own enumerable properties of a value, as a new object.\<close>

definition spread_indexed :: "jsval list \<Rightarrow> (string \<times> jsval) list" where
  "spread_indexed xs = map (\<lambda>i. (toString10 i, xs ! i)) [0 ..< length xs]"

definition spread :: "jsval \<Rightarrow> jsval" where
  "spread v =
     (case v of
        JObj kvs \<Rightarrow> JObj kvs
      | JArr xs \<Rightarrow> JObj (spread_indexed xs)
      | JStr s \<Rightarrow> JObj (spread_indexed (map (\<lambda>c. JStr [c]) s))
      | _ \<Rightarrow> JObj [])"

definition rgb_step :: "runtime \<Rightarrow> ImageEdits \<Rightarrow> edit_state \<Rightarrow> js_error + edit_state" where
  "rgb_step rt e st =
     (if truthy (obj_get e ''rgb'') \<and> list_ex (\<lambda>v. v \<noteq> JNum 0) (Object_values (obj_get e ''rgb''))
      then call rt Step_rgb (Call ''modulate'' [spread (obj_get e ''rgb'')]) st
      else Inr st)"

definition normalize_step :: "runtime \<Rightarrow> ImageEdits \<Rightarrow> edit_state \<Rightarrow> js_error + edit_state" where
  "normalize_step rt e st =
     (if truthy (obj_get e ''normalize'') then call rt Step_normalize (Call ''normalize'' []) st
      else Inr st)"

definition threshold_step :: "runtime \<Rightarrow> ImageEdits \<Rightarrow> edit_state \<Rightarrow> js_error + edit_state" where
  "threshold_step rt e st =
     (if truthy (obj_get e ''threshold'')
      then call rt Step_threshold (Call ''threshold'' [obj_get e ''threshold'']) st
      else Inr st)"

definition sharpen_step :: "runtime \<Rightarrow> ImageEdits \<Rightarrow> edit_state \<Rightarrow> js_error + edit_state" where
  "sharpen_step rt e st =
     (if truthy (obj_get e ''sharpen'')
      then call rt Step_sharpen (Call ''sharpen'' [obj_get e ''sharpen'']) st
      else Inr st)"

definition blur_step :: "runtime \<Rightarrow> ImageEdits \<Rightarrow> edit_state \<Rightarrow> js_error + edit_state" where
  "blur_step rt e st =
     (if truthy (obj_get e ''blur'') then call rt Step_blur (Call ''blur'' [obj_get e ''blur'']) st
      else Inr st)"

definition extend_step :: "runtime \<Rightarrow> ImageEdits \<Rightarrow> edit_state \<Rightarrow> js_error + edit_state" where
  "extend_step rt e st =
     (let ex = obj_get e ''extend'' in
      if truthy ex then
        bindE (colour_or (val_get ex ''background'') transparent_black) (\<lambda>bg.
          call rt Step_extend
            (Call ''extend''
               [JObj [(''top'', dflt (val_get ex ''top'') (JNum 0)),
                      (''bottom'', dflt (val_get ex ''bottom'') (JNum 0)),
                      (''left'', dflt (val_get ex ''left'') (JNum 0)),
                      (''right'', dflt (val_get ex ''right'') (JNum 0)),
                      (''background'', rgb_val bg)]]) st)
      else Inr st)"

text \<open>\<open>position.includes(p)\<close>: strings, arrays and buffers have the method; on any other value
  the call throws.\<close>

definition js_includes :: "jsval \<Rightarrow> string \<Rightarrow> js_error + bool" where
  "js_includes position p =
     (case position of
        JStr s \<Rightarrow> Inr (includes_list s p)
      | JArr xs \<Rightarrow> Inr (JStr p \<in> set xs)
      | JBuffer bs \<Rightarrow> Inr (includes_list bs (map of_char p))
      | _ \<Rightarrow> Inl TypeError)"

definition getTextAnchor :: "jsval \<Rightarrow> js_error + string" where
  "getTextAnchor position =
     bindE (js_includes position ''left'') (\<lambda>isLeft.
       if isLeft then Inr ''start''
       else bindE (js_includes position ''right'') (\<lambda>isRight.
         if isRight then Inr ''end'' else Inr ''middle''))"

definition getTextBaseline :: "jsval \<Rightarrow> js_error + string" where
  "getTextBaseline position =
     bindE (js_includes position ''top'') (\<lambda>isTop.
       if isTop then Inr ''hanging''
       else bindE (js_includes position ''bottom'') (\<lambda>isBottom.
         if isBottom then Inr ''baseline'' else Inr ''middle''))"

datatype axis = Axis_x | Axis_y

definition getTextPosition :: "jsval \<Rightarrow> axis \<Rightarrow> jsval \<Rightarrow> js_error + text_position" where
  "getTextPosition position ax padding =
     (case ax of
        Axis_x \<Rightarrow>
          bindE (js_includes position ''left'') (\<lambda>isLeft.
            if isLeft then Inr (Padding padding)
            else bindE (js_includes position ''right'') (\<lambda>isRight.
              if isRight then Inr (Hundred_minus padding) else Inr Fifty))
      | Axis_y \<Rightarrow>
          bindE (js_includes position ''top'') (\<lambda>isTop.
            if isTop then Inr (Padding padding)
            else bindE (js_includes position ''bottom'') (\<lambda>isBottom.
              if isBottom then Inr (Hundred_minus padding) else Inr Fifty)))"

text \<open>An asynchronous method of the engine whose promise may be rejected.\<close>

definition await :: "'a option \<Rightarrow> js_error + 'a" where
  "await p = (case p of None \<Rightarrow> Inl (Error ''Error'' ''rejected'') | Some x \<Rightarrow> Inr x)"

definition num_opt :: "nat option \<Rightarrow> jsval" where
  "num_opt n = (case n of None \<Rightarrow> JUndefined | Some k \<Rightarrow> JNum (of_nat k))"

definition watermark_step :: "runtime \<Rightarrow> ImageEdits \<Rightarrow> edit_state \<Rightarrow> js_error + edit_state" where
  "watermark_step rt e st =
     (let wm = obj_get e ''watermark'' in
      if truthy wm then
        let text = val_get wm ''text'';
            position = dflt (val_get wm ''position'') (JStr ''center'');
            color = dflt (val_get wm ''color'') (JStr ''#ffffff'');
            opacity = dflt (val_get wm ''opacity'') (JNum (1 / 2));
            fontSize = dflt (val_get wm ''fontSize'') (JNum 48);
            padding = dflt (val_get wm ''padding'') (JNum 20)
        in
        bindE (getTextPosition position Axis_x padding) (\<lambda>x.
        bindE (getTextPosition position Axis_y padding) (\<lambda>y.
        bindE (getTextAnchor position) (\<lambda>anchor.
        bindE (getTextBaseline position) (\<lambda>baseline.
          let svgText = svg_buffer rt
                \<lparr>svg_fill = color, svg_opacity = opacity, svg_font_size = fontSize, svg_x = x,
                 svg_y = y, svg_text_anchor = anchor, svg_dominant_baseline = baseline,
                 svg_text = text\<rparr>
          in
          bindE (await (metadata rt (image st))) (\<lambda>md.
          bindE (sharp_call rt (Call ''resize'' [num_opt (meta_width md), num_opt (meta_height md)])
                   (Sharp svgText None)) (\<lambda>wmSharp.
          bindE (await (toBuffer rt wmSharp)) (\<lambda>watermarkImage.
          bindE (await (toBuffer rt (image st))) (\<lambda>rendered.
            call rt Step_watermark
              (Call ''composite''
                 [JArr [JObj [(''input'', JBuffer watermarkImage), (''gravity'', JStr ''center'')]]])
              \<lparr>image = Sharp rendered None, steps = steps st\<rparr>))))))))
      else Inr st)"

text \<open>The format-specific options: an \<open>if / else if\<close> chain, so at most one of them is applied.\<close>

definition format_step :: "runtime \<Rightarrow> ImageEdits \<Rightarrow> edit_state \<Rightarrow> js_error + edit_state" where
  "format_step rt e st =
     (if truthy (obj_get e ''jpeg'') then call rt Step_jpeg (Call ''jpeg'' [obj_get e ''jpeg'']) st
      else if truthy (obj_get e ''png'') then call rt Step_png (Call ''png'' [obj_get e ''png'']) st
      else if truthy (obj_get e ''webp'') then call rt Step_webp (Call ''webp'' [obj_get e ''webp'']) st
      else if truthy (obj_get e ''tiff'') then call rt Step_tiff (Call ''tiff'' [obj_get e ''tiff'']) st
      else if truthy (obj_get e ''gif'') then call rt Step_gif (Call ''gif'' [obj_get e ''gif'']) st
      else if truthy (obj_get e ''avif'') then call rt Step_avif (Call ''avif'' [obj_get e ''avif'']) st
      else Inr st)"

text \<open>The statements of the \<open>try\<close> block of \<open>applyEdits\<close> before its \<open>return\<close>, in the order of the
  source: the value of the variable \<open>image\<close> when the block reaches \<open>image.toBuffer()\<close>.\<close>

definition editPipeline :: "runtime \<Rightarrow> buffer \<Rightarrow> ImageEdits \<Rightarrow> js_error + edit_state" where
  "editPipeline rt orig e =
     foldl bindE (Inr \<lparr>image = Sharp orig (Some ''none''), steps = []\<rparr>)
       [resize_step rt e, grayscale_step rt e, flip_step rt e, flop_step rt e, rotate_step rt e,
        background_step rt e, flatten_step rt e, rgb_step rt e, normalize_step rt e,
        threshold_step rt e, sharpen_step rt e, blur_step rt e, extend_step rt e,
        watermark_step rt e, format_step rt e]"

definition ImageEditsError :: js_error where
  "ImageEditsError =
     ImageHandlerError INTERNAL_SERVER_ERROR ''ImageEditsError''
       ''Error occurred while applying edits to the image.''"

definition applyEdits :: "runtime \<Rightarrow> buffer \<Rightarrow> ImageEdits \<Rightarrow> js_error + buffer" where
  "applyEdits rt orig e =
     (case bindE (editPipeline rt orig e) (\<lambda>st. await (toBuffer rt (image st))) of
        Inl _ \<Rightarrow> Inl ImageEditsError
      | Inr buf \<Rightarrow> Inr buf)"

subsection \<open>\<open>ImageHandler.applyFormatting\<close>\<close>

text \<open>The parameter \<open>contentType\<close> is not used by the function.\<close>

definition applyFormatting ::
  "runtime \<Rightarrow> buffer \<Rightarrow> string option \<Rightarrow> string \<Rightarrow> js_error + buffer" where
  "applyFormatting rt img ctype fmt =
     (let sharpImage = Sharp img (Some ''none'') in
      case bindE
             (if fmt = ''jpeg'' then sharp_call rt (Call ''jpeg'' []) sharpImage
              else if fmt = ''png'' then sharp_call rt (Call ''png'' []) sharpImage
              else if fmt = ''webp'' then sharp_call rt (Call ''webp'' []) sharpImage
              else if fmt = ''tiff'' then sharp_call rt (Call ''tiff'' []) sharpImage
              else if fmt = ''gif'' then sharp_call rt (Call ''gif'' []) sharpImage
              else if fmt = ''avif'' then sharp_call rt (Call ''avif'' []) sharpImage
              else Inr sharpImage)
             (\<lambda>s. await (toBuffer rt s)) of
        Inl _ \<Rightarrow>
          Inl (ImageHandlerError INTERNAL_SERVER_ERROR ''ImageFormatError''
                 ''Error occurred while converting the image.'')
      | Inr buf \<Rightarrow> Inr buf)"

text \<open>The specification's pipeline: the steps in its fixed order, each present when its edit is
  requested, then the first requested block of format options.\<close>

definition requested :: "ImageEdits \<Rightarrow> edit_step \<Rightarrow> bool" where
  "requested e s =
     (case s of
        Step_resize \<Rightarrow> truthy (obj_get e ''resize'')
      | Step_grayscale \<Rightarrow> truthy (obj_get e ''grayscale'')
      | Step_flip \<Rightarrow> truthy (obj_get e ''flip'')
      | Step_flop \<Rightarrow> truthy (obj_get e ''flop'')
      | Step_rotate \<Rightarrow> obj_get e ''rotate'' \<noteq> JUndefined
      | Step_background \<Rightarrow> truthy (obj_get e ''background'')
      | Step_flatten \<Rightarrow> truthy (obj_get e ''flatten'')
      | Step_rgb \<Rightarrow> truthy (obj_get e ''rgb'') \<and>
                    \<not> list_all (\<lambda>v. v = JNum 0) (Object_values (obj_get e ''rgb''))
      | Step_normalize \<Rightarrow> truthy (obj_get e ''normalize'')
      | Step_threshold \<Rightarrow> truthy (obj_get e ''threshold'')
      | Step_sharpen \<Rightarrow> truthy (obj_get e ''sharpen'')
      | Step_blur \<Rightarrow> truthy (obj_get e ''blur'')
      | Step_extend \<Rightarrow> truthy (obj_get e ''extend'')
      | Step_watermark \<Rightarrow> truthy (obj_get e ''watermark'')
      | Step_jpeg \<Rightarrow> truthy (obj_get e ''jpeg'')
      | Step_png \<Rightarrow> truthy (obj_get e ''png'')
      | Step_webp \<Rightarrow> truthy (obj_get e ''webp'')
      | Step_tiff \<Rightarrow> truthy (obj_get e ''tiff'')
      | Step_gif \<Rightarrow> truthy (obj_get e ''gif'')
      | Step_avif \<Rightarrow> truthy (obj_get e ''avif''))"


subsection \<open>Object storage, the metadata table and the environment\<close>

text \<open>An object of the store, with the response fields the sources read. The user metadata of an
  upload (processing time, file size) is written and never read, and is left out.\<close>

record s3_object =
  Body :: buffer
  obj_ContentType :: "string option"
  obj_CacheControl :: "string option"
  obj_LastModified :: "string option"

text \<open>The interface \<open>ImageMetadata\<close>, without the fields \<open>edits\<close>, \<open>originalEtag\<close> and
  \<open>customMetadata\<close>, which \<open>process\<close> never sets. An absent property is \<open>None\<close>.\<close>

record ImageMetadata =
  imageId :: string
  bucketName :: string
  md_key :: string
  md_format :: "string option"
  md_width :: "nat option"
  md_height :: "nat option"
  md_size :: "nat option"
  md_contentType :: "string option"
  createdAt :: "string option"
  updatedAt :: "string option"
  processingStatus :: "string option"
  processingError :: "string option"
  requestedEdits :: "ImageEdits option"
  accessCount :: "nat option"
  lastAccessed :: "string option"

text \<open>The calls of \<open>process\<close> that the properties speak about, in the order they are made.\<close>

datatype invocation = ApplyEdits | ApplyFormatting | StoreProcessedImage | UpdateAccessStats

text \<open>The outcome of one variant in the batch result of an upload notification, and the
  document that the batch handler puts into its own table for a record.\<close>

datatype variant_result =
    Variant_success string string string string nat nat
  | Variant_error string string

record batch_document =
  doc_id :: string
  originalBucket :: string
  originalKey :: string
  doc_status :: string
  processingResults :: "variant_result list"
  doc_errorMessage :: "string option"

text \<open>What the batch handler has begun so far: the records by their position in the
  notification, and the variants by record and suffix. It is kept for the proofs.\<close>

datatype batch_event = Record_started nat | Variant_attempted nat string

text \<open>The state outside the function: the objects of the store by bucket and key, the items of
  the metadata table by \<open>imageId\<close>, the log of invocations, the documents of the batch
  handler's table and the log of the batch handler.\<close>

record world =
  objects :: "string \<times> string \<Rightarrow> s3_object option"
  table :: "string \<Rightarrow> ImageMetadata option"
  invoked :: "invocation list"
  documents :: "batch_document list"
  batch_log :: "batch_event list"

record env =
  OUTPUT_BUCKET_NAME :: "string option"
  ENABLE_CACHE :: "string option"
  ENABLE_S3_OBJECT_LAMBDA :: "string option"
  ENABLE_DEFAULT_FALLBACK_IMAGE :: "string option"
  DEFAULT_FALLBACK_IMAGE_BUCKET :: "string option"
  DEFAULT_FALLBACK_IMAGE_KEY :: "string option"
  CORS_ENABLED :: "string option"
  CORS_ORIGIN :: "string option"
  OUTPUT_BUCKET :: "string option"
  ENABLE_WATERMARK :: "string option"
  WATERMARK_TEXT :: "string option"
  ENABLE_DYNAMODB :: "string option"

text \<open>Which calls to the storage services fail in this run, one flag for each call site. A
  \<open>headObject\<close> on a missing object fails with \<open>NotFound\<close> and a \<open>getObject\<close> on a missing object
  fails as well; the flags are for every other failure (network, permissions, throttling).
  The last flag tells whether the timer of the write-back mode fires before the request is
  processed.\<close>

record faults =
  headObject_fails :: bool
  db_get_fails :: bool
  db_update_fails :: bool
  cached_getObject_fails :: bool
  upload_fails :: bool
  db_put_fails :: bool
  db_put_failed_record_fails :: bool
  fallback_getObject_fails :: bool
  write_response_fails :: bool
  write_error_response_fails :: bool
  timeout_first :: bool

definition service_error :: "string \<Rightarrow> js_error" where
  "service_error what = Error ''ServiceError'' what"

text \<open>\<open>EnvConfig.getOutputBucket\<close>\<close>

definition getOutputBucket :: "env \<Rightarrow> string" where
  "getOutputBucket ev = or_default (OUTPUT_BUCKET_NAME ev) []"

subsection \<open>\<open>DbOperations\<close>\<close>

definition getImageMetadata :: "faults \<Rightarrow> string \<Rightarrow> world \<Rightarrow> js_error + ImageMetadata option" where
  "getImageMetadata fl k w =
     (if db_get_fails fl then Inl (service_error ''get'') else Inr (table w k))"

text \<open>\<open>storeImageMetadata\<close>: the item is \<open>{ imageId, createdAt: now, ...metadata }\<close>; the
  properties of \<open>metadata\<close> win, and the item is stored under its own \<open>imageId\<close>.\<close>

definition storeImageMetadata ::
  "runtime \<Rightarrow> bool \<Rightarrow> ImageMetadata \<Rightarrow> world \<Rightarrow> (js_error + unit) \<times> world" where
  "storeImageMetadata rt fails m w =
     (if fails then (Inl (service_error ''put''), w)
      else
        let item = m\<lparr>createdAt := (case createdAt m of None \<Rightarrow> Some (now rt) | Some c \<Rightarrow> Some c)\<rparr>
        in (Inr (), w\<lparr>table := (table w)(imageId item \<mapsto> item)\<rparr>))"

definition blank_item :: "string \<Rightarrow> ImageMetadata" where
  "blank_item k =
     \<lparr>imageId = k, bucketName = [], md_key = [], md_format = None, md_width = None,
      md_height = None, md_size = None, md_contentType = None, createdAt = None,
      updatedAt = None, processingStatus = None, processingError = None, requestedEdits = None,
      accessCount = None, lastAccessed = None\<rparr>"

text \<open>\<open>updateImageMetadata\<close>: a \<open>SET\<close> of the given properties and of \<open>updatedAt\<close>; the primary
  key is never updated, and an update of a missing item creates it. The partial metadata is
  given as the assignment it stands for.\<close>

definition updateImageMetadata ::
  "runtime \<Rightarrow> faults \<Rightarrow> string \<Rightarrow> (ImageMetadata \<Rightarrow> ImageMetadata) \<Rightarrow> world
   \<Rightarrow> (js_error + unit) \<times> world" where
  "updateImageMetadata rt fl k upd w =
     (if db_update_fails fl then (Inl (service_error ''update''), w)
      else
        let old = (case table w k of None \<Rightarrow> blank_item k | Some m \<Rightarrow> m);
            item = (upd old)\<lparr>imageId := imageId old, updatedAt := Some (now rt)\<rparr>
        in (Inr (), w\<lparr>table := (table w)(k \<mapsto> item)\<rparr>))"

subsection \<open>\<open>S3Operations\<close>\<close>

definition doesProcessedImageExist :: "env \<Rightarrow> faults \<Rightarrow> string \<Rightarrow> world \<Rightarrow> js_error + bool" where
  "doesProcessedImageExist ev fl k w =
     (if headObject_fails fl then Inl (service_error ''headObject'')
      else Inr (objects w (getOutputBucket ev, k) \<noteq> None))"

definition updateAccessStats :: "runtime \<Rightarrow> faults \<Rightarrow> string \<Rightarrow> world \<Rightarrow> world" where
  "updateAccessStats rt fl k w =
     (case getImageMetadata fl k w of
        Inl _ \<Rightarrow> w
      | Inr None \<Rightarrow> w
      | Inr (Some existingMetadata) \<Rightarrow>
          let n = (case accessCount existingMetadata of None \<Rightarrow> 0 | Some c \<Rightarrow> c) + 1
          in snd (updateImageMetadata rt fl k
                    (\<lambda>m. m\<lparr>accessCount := Some n, lastAccessed := Some (now rt)\<rparr>) w))"

text \<open>\<open>contentType.split('/')[1]\<close>\<close>

definition split_second :: "char \<Rightarrow> string \<Rightarrow> string option" where
  "split_second sep s =
     (case dropWhile (\<lambda>c. c \<noteq> sep) s of
        [] \<Rightarrow> None
      | _ # rest \<Rightarrow> Some (takeWhile (\<lambda>c. c \<noteq> sep) rest))"

text \<open>\<open>storeProcessedImage\<close>. The optional \<open>metadata\<close> is a record with every property that
  \<open>process\<close> passes, so in \<open>{ ..., ...metadata }\<close> its properties replace the defaults. Both the
  upload and the write of the metadata are inside the \<open>try\<close>; the handler writes a second
  record with the error, when \<open>metadata\<close> was given, and throws the error again.\<close>

definition storeProcessedImage ::
  "runtime \<Rightarrow> env \<Rightarrow> faults \<Rightarrow> string \<Rightarrow> string \<Rightarrow> buffer \<Rightarrow> ImageMetadata option \<Rightarrow> world
   \<Rightarrow> (js_error + unit) \<times> world" where
  "storeProcessedImage rt ev fl k ctype buf md w =
     (let attempt =
            (if upload_fails fl then (Inl (service_error ''upload''), w)
             else
               let w1 = w\<lparr>objects := (objects w)((getOutputBucket ev, k) \<mapsto>
                            \<lparr>Body = buf, obj_ContentType = Some ctype,
                             obj_CacheControl = Some ''max-age=31536000'',
                             obj_LastModified = Some (now rt)\<rparr>)\<rparr>;
                   imageMetadata =
                     (case md of
                        Some m \<Rightarrow> m
                      | None \<Rightarrow> (blank_item k)
                          \<lparr>bucketName := getOutputBucket ev, md_key := k,
                           md_format := split_second (CHR ''/'') ctype,
                           md_size := Some (length buf), md_contentType := Some ctype,
                           processingStatus := Some ''processed''\<rparr>)
               in storeImageMetadata rt (db_put_fails fl) imageMetadata w1)
      in case attempt of
           (Inr u, w2) \<Rightarrow> (Inr u, w2)
         | (Inl err, w2) \<Rightarrow>
             (case md of
                None \<Rightarrow> (Inl err, w2)
              | Some m \<Rightarrow>
                  (Inl err,
                   snd (storeImageMetadata rt (db_put_failed_record_fails fl)
                          (m\<lparr>processingError := Some (case err of Error _ msg \<Rightarrow> msg
                                                         | ImageHandlerError _ _ msg \<Rightarrow> msg)\<rparr>)
                          w2))))"

definition getObject :: "bool \<Rightarrow> string \<times> string \<Rightarrow> world \<Rightarrow> js_error + s3_object" where
  "getObject fails loc w =
     (if fails then Inl (service_error ''getObject'')
      else case objects w loc of
             None \<Rightarrow> Inl (Error ''NoSuchKey'' ''The specified key does not exist.'')
           | Some obj \<Rightarrow> Inr obj)"

subsection \<open>\<open>ImageHandler.process\<close>\<close>

definition logged :: "invocation \<Rightarrow> world \<Rightarrow> world" where
  "logged c w = w\<lparr>invoked := invoked w @ [c]\<rparr>"

text \<open>The first \<open>try\<close> block: the cached artifact, if there is one and it can be fetched. Every
  error in the block is caught and logged.\<close>

definition cache_check ::
  "runtime \<Rightarrow> env \<Rightarrow> faults \<Rightarrow> string \<Rightarrow> world \<Rightarrow> buffer option \<times> world" where
  "cache_check rt ev fl k w =
     (case doesProcessedImageExist ev fl k w of
        Inl _ \<Rightarrow> (None, w)
      | Inr False \<Rightarrow> (None, w)
      | Inr True \<Rightarrow>
          let w1 = updateAccessStats rt fl k (logged UpdateAccessStats w) in
          (case getObject (cached_getObject_fails fl) (or_default (OUTPUT_BUCKET_NAME ev) [], k) w1 of
             Inl _ \<Rightarrow> (None, w1)
           | Inr cachedImage \<Rightarrow> (Some (Body cachedImage), w1)))"

text \<open>The second \<open>try\<close> block: the content type of the source.\<close>

definition source_contentType :: "runtime \<Rightarrow> ImageRequestInfo \<Rightarrow> js_error + string option" where
  "source_contentType rt req =
     (case ContentType req of
        Some v \<Rightarrow> Inr v
      | None \<Rightarrow>
          (case metadata rt (Sharp (originalImage req) None) of
             None \<Rightarrow>
               Inl (ImageHandlerError INTERNAL_SERVER_ERROR ''ImageProcessingError''
                      ''Error occurred during image metadata processing.'')
           | Some md \<Rightarrow> Inr (meta_format md)))"

text \<open>\<open>formats.includes(x)\<close> on a value that may be \<open>undefined\<close>.\<close>

definition formats_include :: "string option \<Rightarrow> bool" where
  "formats_include x = (case x of None \<Rightarrow> False | Some s \<Rightarrow> s \<in> set ImageFormatTypes)"

text \<open>\<open>contentTypeMap[outputFormat] || 'image/jpeg'\<close>\<close>

definition outputContentType :: "string \<Rightarrow> string" where
  "outputContentType fmt =
     or_default (map_of [(''jpeg'', ''image/jpeg''), (''png'', ''image/png''),
                         (''webp'', ''image/webp''), (''tiff'', ''image/tiff''),
                         (''gif'', ''image/gif''), (''avif'', ''image/avif'')] fmt)
       ''image/jpeg''"

text \<open>The inner \<open>try\<close> block of the conversion path, run when \<open>ENABLE_CACHE\<close> is \<open>Yes\<close>: every
  error in it is caught and logged, so it yields a state only.\<close>

definition store_in_cache ::
  "runtime \<Rightarrow> env \<Rightarrow> faults \<Rightarrow> ImageRequestInfo \<Rightarrow> string \<Rightarrow> buffer \<Rightarrow> world \<Rightarrow> world" where
  "store_in_cache rt ev fl req fmt formatted w =
     (let k = generateImageId (JSON_stringify rt) req in
      case metadata rt (Sharp formatted None) of
        None \<Rightarrow> w
      | Some md \<Rightarrow>
          snd (storeProcessedImage rt ev fl k (outputContentType fmt) formatted
                 (Some \<lparr>imageId = k, bucketName = or_default (OUTPUT_BUCKET_NAME ev) [],
                        md_key = k, md_format = Some fmt, md_width = meta_width md,
                        md_height = meta_height md, md_size = Some (length formatted),
                        md_contentType = Some (outputContentType fmt), createdAt = None,
                        updatedAt = None, processingStatus = Some ''processed'',
                        processingError = None, requestedEdits = edits req,
                        accessCount = None, lastAccessed = None\<rparr>)
                 (logged StoreProcessedImage w)))"

text \<open>The conversion path: \<open>outputFormat\<close> is set and is a supported format.\<close>

definition convert_and_store ::
  "runtime \<Rightarrow> env \<Rightarrow> faults \<Rightarrow> ImageRequestInfo \<Rightarrow> string option \<Rightarrow> string \<Rightarrow> buffer \<Rightarrow> world
   \<Rightarrow> (js_error + buffer) \<times> world" where
  "convert_and_store rt ev fl req ctype fmt modifiedImage w =
     (case applyFormatting rt modifiedImage ctype fmt of
        Inl _ \<Rightarrow>
          (Inl (ImageHandlerError INTERNAL_SERVER_ERROR ''ImageFormatError''
                  ''Error occurred while converting the image to the desired format.''),
           logged ApplyFormatting w)
      | Inr formatted \<Rightarrow>
          (Inr formatted,
           if ENABLE_CACHE ev = Some ''Yes''
           then store_in_cache rt ev fl req fmt formatted (logged ApplyFormatting w)
           else logged ApplyFormatting w))"

text \<open>\<open>process\<close>. The variable \<open>modifiedImage\<close> is a buffer wherever the source tests it against
  \<open>null\<close>, so the two defensive branches that throw \<open>ImageProcessingError\<close> are never taken.\<close>

definition process ::
  "runtime \<Rightarrow> env \<Rightarrow> faults \<Rightarrow> ImageRequestInfo \<Rightarrow> world \<Rightarrow> (js_error + buffer) \<times> world" where
  "process rt ev fl req w =
     (case cache_check rt ev fl (generateImageId (JSON_stringify rt) req) w of
        (Some cached, w1) \<Rightarrow> (Inr cached, w1)
      | (None, w1) \<Rightarrow>
          (case source_contentType rt req of
             Inl err \<Rightarrow> (Inl err, w1)
           | Inr ctype \<Rightarrow>
               if formats_include ctype then
                 (case (case edits req of
                          Some e \<Rightarrow> (applyEdits rt (originalImage req) e, logged ApplyEdits w1)
                        | None \<Rightarrow> (Inr (originalImage req), w1)) of
                    (Inl err, w2) \<Rightarrow> (Inl err, w2)
                  | (Inr modifiedImage, w2) \<Rightarrow>
                      if or_default (outputFormat req) [] \<noteq> [] \<and> formats_include (outputFormat req)
                      then convert_and_store rt ev fl req ctype (or_default (outputFormat req) [])
                             modifiedImage w2
                      else (Inr modifiedImage, w2))
               else
                 (Inl (ImageHandlerError BAD_REQUEST ''ImageFormatNotSupported''
                         ''The requested image format is not supported.''),
                  w1)))"

subsection \<open>Events and responses of the Lambda function\<close>

text \<open>A header object: a property may be absent (\<open>None\<close>) or present with a value that may be
  \<open>undefined\<close> (\<open>Some None\<close>). The spread \<open>{ ...a, ...b }\<close> is \<open>a ++ b\<close>.\<close>

type_synonym Headers = "string \<Rightarrow> string option option"

record ImageHandlerEvent =
  path :: "string option"
  queryStringParameters :: "(string \<times> string) list option"
  requestContext_elb :: bool
  event_headers :: "(string \<times> string) list"

datatype payload = Text string | Binary buffer

record ImageHandlerExecutionResult =
  statusCode :: StatusCodes
  isBase64Encoded :: bool
  result_headers :: Headers
  body :: payload

record S3UserRequest =
  url :: string
  Host :: string

record S3GetObjectContext =
  outputRoute :: string
  outputToken :: string

record S3EventRecord =
  eventSource :: string
  bucket_name :: string
  object_key :: string

text \<open>The three shapes of event the handler is invoked with: an upload notification (it has
  \<open>Records\<close>), a proxy request, and an Object Lambda request, whose \<open>getObjectContext\<close> is
  missing for a \<open>HeadObject\<close>.\<close>

datatype lambda_event =
    Notification "S3EventRecord list"
  | Proxy ImageHandlerEvent
  | ObjectLambda S3UserRequest "S3GetObjectContext option"

text \<open>The modules of the repository and of the platform that the entry point uses and that are
  not among the sources: the class \<open>ImageRequest\<close> (\<open>setup\<close>, \<open>parseImageHeaders\<close>, and what
  \<open>process\<close> receives when it is handed an instance built by the batch handler; \<open>Inl\<close> when
  that instance cannot be built or read), \<open>isNullOrWhiteSpace\<close> of the helpers,
  \<open>decodeURIComponent\<close> (\<open>None\<close> for a malformed sequence), \<open>encodeURI\<close> followed by the
  restoration of spaces, the dissection of the URL in \<open>normalizeEvent\<close> (\<open>split\<close> on the host and
  on the question mark, \<open>URLSearchParams\<close>), the region of the SDK options, and
  \<open>generateUniqueId\<close>, which reads the clock and a random number.\<close>

record library =
  ImageRequest_setup :: "ImageHandlerEvent \<Rightarrow> world \<Rightarrow> js_error + ImageRequestInfo"
  parseImageHeaders :: "ImageHandlerEvent \<Rightarrow> js_error + Headers option"
  ImageRequest_instance ::
    "string \<Rightarrow> string \<Rightarrow> string \<Rightarrow> nat \<Rightarrow> nat \<Rightarrow> bool \<Rightarrow> js_error + ImageRequestInfo"
  isNullOrWhiteSpace :: "string option \<Rightarrow> bool"
  decodeURIComponent :: "string \<Rightarrow> string option"
  encodeURI_spaces :: "string \<Rightarrow> string"
  dissect_url :: "S3UserRequest \<Rightarrow> js_error + ImageHandlerEvent"
  region :: "string option"
  generateUniqueId :: string

subsection \<open>\<open>handleRequest\<close>\<close>

definition LAMBDA_PAYLOAD_LIMIT :: nat where
  "LAMBDA_PAYLOAD_LIMIT = 6 * 1024 * 1024"

definition base64_digit :: "nat \<Rightarrow> char" where
  "base64_digit n =
     ''ABCDEFGHIJKLMNOPQRSTUVWXYZabcdefghijklmnopqrstuvwxyz0123456789+/'' ! (n mod 64)"

text \<open>\<open>buffer.toString("base64")\<close>: three bytes give four digits, and the last group is padded.\<close>

fun base64 :: "buffer \<Rightarrow> string" where
  "base64 (x # y # z # rest) =
     [base64_digit (x div 4), base64_digit ((x mod 4) * 16 + y div 16),
      base64_digit ((y mod 16) * 4 + z div 64), base64_digit (z mod 64)] @ base64 rest"
| "base64 [x, y] =
     [base64_digit (x div 4), base64_digit ((x mod 4) * 16 + y div 16),
      base64_digit ((y mod 16) * 4), CHR ''='']"
| "base64 [x] = [base64_digit (x div 4), base64_digit ((x mod 4) * 16), CHR ''='', CHR ''='']"
| "base64 [] = []"

definition getResponseHeaders :: "env \<Rightarrow> bool \<Rightarrow> bool \<Rightarrow> Headers" where
  "getResponseHeaders ev isError isAlb =
     (let h0 = [''Access-Control-Allow-Methods'' \<mapsto> Some ''GET'',
                ''Access-Control-Allow-Headers'' \<mapsto> Some ''Content-Type, Authorization''];
          h1 = (if \<not> isAlb then h0(''Access-Control-Allow-Credentials'' \<mapsto> Some ''true'') else h0);
          h2 = (if CORS_ENABLED ev = Some ''Yes''
                then h1(''Access-Control-Allow-Origin'' \<mapsto> CORS_ORIGIN ev) else h1)
      in if isError then h2(''Content-Type'' \<mapsto> Some ''application/json'') else h2)"

text \<open>The own enumerable properties of an \<open>ImageHandlerError\<close>, in the order of the
  constructor's parameters.\<close>

definition error_val :: "StatusCodes \<Rightarrow> string \<Rightarrow> string \<Rightarrow> jsval" where
  "error_val st code msg =
     JObj [(''status'', JNum (of_nat (status_value st))), (''code'', JStr code),
           (''message'', JStr msg)]"

text \<open>\<open>getErrorResponse\<close>: every status of the enumeration is truthy, and an error that is not
  an \<open>ImageHandlerError\<close> has no property \<open>status\<close>.\<close>

definition getErrorResponse :: "runtime \<Rightarrow> js_error \<Rightarrow> StatusCodes \<times> string" where
  "getErrorResponse rt err =
     (case err of
        ImageHandlerError st code msg \<Rightarrow> (st, JSON_stringify rt (error_val st code msg))
      | Error _ _ \<Rightarrow>
          (INTERNAL_SERVER_ERROR,
           JSON_stringify rt
             (JObj [(''message'', JStr ''Internal error. Please contact the system administrator.''),
                    (''code'', JStr ''InternalError''),
                    (''status'', JNum (of_nat (status_value INTERNAL_SERVER_ERROR)))])))"

definition error_status :: "js_error \<Rightarrow> StatusCodes" where
  "error_status err =
     (case err of ImageHandlerError st _ _ \<Rightarrow> st | Error _ _ \<Rightarrow> INTERNAL_SERVER_ERROR)"

definition handleDefaultFallbackImage ::
  "library \<Rightarrow> env \<Rightarrow> faults \<Rightarrow> ImageHandlerEvent \<Rightarrow> bool \<Rightarrow> js_error \<Rightarrow> world
   \<Rightarrow> js_error + ImageHandlerExecutionResult" where
  "handleDefaultFallbackImage lib ev fl event isAlb err w =
     bindE (getObject (fallback_getObject_fails fl)
              (or_default (DEFAULT_FALLBACK_IMAGE_BUCKET ev) [],
               or_default (DEFAULT_FALLBACK_IMAGE_KEY ev) []) w)
       (\<lambda>defaultFallbackImage.
          let h0 = (getResponseHeaders ev False isAlb)
                     (''Content-Type'' \<mapsto> obj_ContentType defaultFallbackImage,
                      ''Last-Modified'' \<mapsto> obj_LastModified defaultFallbackImage);
              h1 = (case parseImageHeaders lib event of
                      Inl _ \<Rightarrow> h0
                    | Inr None \<Rightarrow> h0(''Cache-Control'' \<mapsto> None)
                    | Inr (Some hs) \<Rightarrow>
                        h0(''Cache-Control'' \<mapsto>
                             (case hs ''Cache-Control'' of None \<Rightarrow> None | Some v \<Rightarrow> v)));
              cc = (case obj_CacheControl defaultFallbackImage of
                      Some c \<Rightarrow> c
                    | None \<Rightarrow>
                        (case h1 ''Cache-Control'' of
                           Some (Some c) \<Rightarrow> c
                         | _ \<Rightarrow> ''max-age=31536000,public''))
          in Inr \<lparr>statusCode = error_status err, isBase64Encoded = True,
                  result_headers = h1(''Cache-Control'' \<mapsto> Some cc),
                  body = (if ENABLE_S3_OBJECT_LAMBDA ev = Some ''Yes''
                          then Binary (Body defaultFallbackImage)
                          else Text (base64 (Body defaultFallbackImage)))\<rparr>)"

text \<open>The \<open>catch\<close> block of \<open>handleRequest\<close>: the fallback image when it is configured and can be
  fetched, the error response otherwise.\<close>

definition error_result ::
  "library \<Rightarrow> runtime \<Rightarrow> env \<Rightarrow> faults \<Rightarrow> ImageHandlerEvent \<Rightarrow> js_error \<Rightarrow> world
   \<Rightarrow> ImageHandlerExecutionResult" where
  "error_result lib rt ev fl event err w =
     (let isAlb = requestContext_elb event;
          plain = \<lparr>statusCode = fst (getErrorResponse rt err), isBase64Encoded = False,
                   result_headers = getResponseHeaders ev True isAlb,
                   body = Text (snd (getErrorResponse rt err))\<rparr>
      in if ENABLE_DEFAULT_FALLBACK_IMAGE ev = Some ''Yes'' \<and>
            \<not> isNullOrWhiteSpace lib (DEFAULT_FALLBACK_IMAGE_BUCKET ev) \<and>
            \<not> isNullOrWhiteSpace lib (DEFAULT_FALLBACK_IMAGE_KEY ev)
         then (case handleDefaultFallbackImage lib ev fl event isAlb err w of
                 Inr fallback \<Rightarrow> fallback
               | Inl _ \<Rightarrow> plain)
         else plain)"

definition TooLargeImageException :: js_error where
  "TooLargeImageException =
     ImageHandlerError REQUEST_TOO_LONG ''TooLargeImageException''
       ''The converted image is too large to return.''"

text \<open>The value of \<open>processedRequest\<close> after the size check: the base64 text in direct-proxy
  mode, unless it is longer than the limit, and the buffer in write-back mode.\<close>

definition encode_payload :: "env \<Rightarrow> buffer \<Rightarrow> js_error + payload" where
  "encode_payload ev buf =
     (if ENABLE_S3_OBJECT_LAMBDA ev \<noteq> Some ''Yes'' then
        if length (base64 buf) > LAMBDA_PAYLOAD_LIMIT then Inl TooLargeImageException
        else Inr (Text (base64 buf))
      else Inr (Binary buf))"

definition success_headers :: "env \<Rightarrow> bool \<Rightarrow> ImageRequestInfo \<Rightarrow> Headers" where
  "success_headers ev isAlb info =
     (let h0 = [''Cache-Control'' \<mapsto> cacheControl info];
          h1 = (case headers info of None \<Rightarrow> h0 | Some hs \<Rightarrow> h0 ++ map_of hs);
          h2 = (case secondsToExpiry info of
                  None \<Rightarrow> h1
                | Some n \<Rightarrow> h1(''Cache-Control'' \<mapsto> Some (''max-age='' @ toString10 n @ '',public'')));
          h3 = h2 ++ getResponseHeaders ev False isAlb
      in h3(''Content-Type'' \<mapsto> contentType info, ''Expires'' \<mapsto> expires info,
            ''Last-Modified'' \<mapsto> lastModified info))"

definition handleRequest ::
  "library \<Rightarrow> runtime \<Rightarrow> env \<Rightarrow> faults \<Rightarrow> ImageHandlerEvent \<Rightarrow> world
   \<Rightarrow> ImageHandlerExecutionResult \<times> world" where
  "handleRequest lib rt ev fl event w =
     (case ImageRequest_setup lib event w of
        Inl err \<Rightarrow> (error_result lib rt ev fl event err w, w)
      | Inr imageRequestInfo \<Rightarrow>
          (case process rt ev fl imageRequestInfo w of
             (Inl err, w1) \<Rightarrow> (error_result lib rt ev fl event err w1, w1)
           | (Inr buf, w1) \<Rightarrow>
               (case encode_payload ev buf of
                  Inl err \<Rightarrow> (error_result lib rt ev fl event err w1, w1)
                | Inr processedRequest \<Rightarrow>
                    (\<lparr>statusCode = OK, isBase64Encoded = True,
                      result_headers =
                        success_headers ev (requestContext_elb event) imageRequestInfo,
                      body = processedRequest\<rparr>, w1))))"

subsection \<open>\<open>handleS3Event\<close>\<close>

definition IMAGE_FORMATS :: "string list" where
  "IMAGE_FORMATS = [''.jpg'', ''.jpeg'', ''.png'', ''.gif'', ''.webp'', ''.tiff'', ''.svg'']"

text \<open>\<open>s.replace(/\+/g, ' ')\<close>\<close>

definition plus_to_space :: "string \<Rightarrow> string" where
  "plus_to_space s = map (\<lambda>c. if c = CHR ''+'' then CHR '' '' else c) s"

text \<open>\<open>s.lastIndexOf(c)\<close>, which is \<open>-1\<close> when \<open>c\<close> does not occur.\<close>

definition lastIndexOf :: "string \<Rightarrow> char \<Rightarrow> int" where
  "lastIndexOf s c =
     (if c \<in> set s then int (length s) - 1 - int (length (takeWhile (\<lambda>x. x \<noteq> c) (rev s)))
      else - 1)"

text \<open>\<open>s.substring(a)\<close> and \<open>s.substring(a, b)\<close>: a negative index counts as zero, and the two
  indices are swapped when the first is the larger.\<close>

definition substring_from :: "string \<Rightarrow> int \<Rightarrow> string" where
  "substring_from s a = drop (nat a) s"

definition substring :: "string \<Rightarrow> int \<Rightarrow> int \<Rightarrow> string" where
  "substring s a c = take (nat (max a c) - nat (min a c)) (drop (nat (min a c)) s)"

definition startsWith :: "string \<Rightarrow> string \<Rightarrow> bool" where
  "startsWith s p = (take (length p) s = p)"

record transform =
  tf_width :: nat
  tf_height :: nat
  tf_suffix :: string
  tf_fit :: "string option"
  tf_quality :: "nat option"
  tf_watermark :: bool

text \<open>The list \<open>transformations\<close> of the \<open>try\<close> block and the one of the handler after it; the
  second has one more entry when \<open>ENABLE_WATERMARK\<close> is \<open>Yes\<close>.\<close>

definition transformations_try :: "transform list" where
  "transformations_try =
     [\<lparr>tf_width = 100, tf_height = 100, tf_suffix = ''thumb'', tf_fit = None,
       tf_quality = None, tf_watermark = False\<rparr>,
      \<lparr>tf_width = 500, tf_height = 500, tf_suffix = ''medium'', tf_fit = None,
       tf_quality = None, tf_watermark = False\<rparr>,
      \<lparr>tf_width = 1024, tf_height = 1024, tf_suffix = ''large'', tf_fit = None,
       tf_quality = None, tf_watermark = False\<rparr>]"

definition transformations_catch :: "env \<Rightarrow> transform list" where
  "transformations_catch ev =
     [\<lparr>tf_width = 100, tf_height = 100, tf_suffix = ''thumb'', tf_fit = None,
       tf_quality = Some 80, tf_watermark = False\<rparr>,
      \<lparr>tf_width = 500, tf_height = 500, tf_suffix = ''medium'', tf_fit = None,
       tf_quality = Some 85, tf_watermark = False\<rparr>,
      \<lparr>tf_width = 1024, tf_height = 1024, tf_suffix = ''large'', tf_fit = None,
       tf_quality = Some 90, tf_watermark = False\<rparr>,
      \<lparr>tf_width = 1920, tf_height = 1080, tf_suffix = ''banner'', tf_fit = Some ''inside'',
       tf_quality = Some 90, tf_watermark = False\<rparr>] @
     (if ENABLE_WATERMARK ev = Some ''Yes''
      then [\<lparr>tf_width = 2048, tf_height = 2048, tf_suffix = ''watermarked'',
              tf_fit = Some ''inside'', tf_quality = Some 95, tf_watermark = True\<rparr>]
      else [])"

text \<open>Which calls of the batch handler fail in this run, by the position of the record in the
  notification and the suffix of the variant; \<open>process_faults\<close> gives the failures inside the
  call of \<open>process\<close> for a variant.\<close>

record batch_faults =
  source_getObject_fails :: "nat \<Rightarrow> bool"
  retry_getObject_fails :: "nat \<Rightarrow> bool"
  putObject_fails :: "nat \<Rightarrow> string \<Rightarrow> bool"
  document_put_fails :: "nat \<Rightarrow> bool"
  error_document_put_fails :: "nat \<Rightarrow> bool"
  process_faults :: "nat \<Rightarrow> string \<Rightarrow> faults"

definition attempt :: "nat \<Rightarrow> transform \<Rightarrow> world \<Rightarrow> world" where
  "attempt i tf w = w\<lparr>batch_log := batch_log w @ [Variant_attempted i (tf_suffix tf)]\<rparr>"

text \<open>One iteration of the loop over \<open>transformations\<close> in the \<open>try\<close> block: its body is a
  \<open>try\<close> whose handler only logs, so the iteration yields a state. The processed image is a
  buffer, so \<open>processedImage.Body\<close> and \<open>processedImage.ContentType\<close> are \<open>undefined\<close>: the
  object is put without a body, and with \<open>ENABLE_DYNAMODB\<close> the read of
  \<open>processedImage.Body.length\<close> throws into the same handler before anything is put into the
  table.\<close>

definition variant_try ::
  "library \<Rightarrow> runtime \<Rightarrow> env \<Rightarrow> batch_faults \<Rightarrow> nat \<Rightarrow> string \<Rightarrow> string \<Rightarrow> string \<Rightarrow> string
   \<Rightarrow> string \<Rightarrow> transform \<Rightarrow> world \<Rightarrow> world" where
  "variant_try lib rt ev bf i output_bucket bkt k filename fileExt tf w =
     (let outputKey = ''processed/'' @ filename @ ''-'' @ tf_suffix tf @ fileExt in
      case ImageRequest_instance lib bkt k outputKey (tf_width tf) (tf_height tf)
             (ENABLE_WATERMARK ev = Some ''Yes'') of
        Inl _ \<Rightarrow> attempt i tf w
      | Inr imageRequest \<Rightarrow>
          (case process rt ev (process_faults bf i (tf_suffix tf)) imageRequest (attempt i tf w) of
             (Inl _, w1) \<Rightarrow> w1
           | (Inr processedImage, w1) \<Rightarrow>
               if putObject_fails bf i (tf_suffix tf) then w1
               else w1\<lparr>objects := (objects w1)((output_bucket, outputKey) \<mapsto>
                          \<lparr>Body = [], obj_ContentType = None, obj_CacheControl = None,
                           obj_LastModified = Some (now rt)\<rparr>)\<rparr>))"

definition URIError :: js_error where
  "URIError = Error ''URIError'' ''URI malformed''"

text \<open>The \<open>try\<close> block of the loop over the records. It throws when the key cannot be decoded
  and when the source object cannot be fetched; \<open>continue\<close> ends the iteration normally.\<close>

definition block_try ::
  "library \<Rightarrow> runtime \<Rightarrow> env \<Rightarrow> batch_faults \<Rightarrow> nat \<Rightarrow> string \<Rightarrow> S3EventRecord \<Rightarrow> world
   \<Rightarrow> (js_error + unit) \<times> world" where
  "block_try lib rt ev bf i output_bucket record w =
     (case decodeURIComponent lib (plus_to_space (object_key record)) of
        None \<Rightarrow> (Inl URIError, w)
      | Some k \<Rightarrow>
          let fileExt = substring_from (toLowerCase k) (lastIndexOf k (CHR ''.'')) in
          if fileExt \<notin> set IMAGE_FORMATS then (Inr (), w)
          else
            (case getObject (source_getObject_fails bf i) (bucket_name record, k) w of
               Inl err \<Rightarrow> (Inl err, w)
             | Inr sourceObject \<Rightarrow>
                 let filename = substring k (lastIndexOf k (CHR ''/'') + 1)
                                  (lastIndexOf k (CHR ''.''))
                 in (Inr (),
                     foldl (\<lambda>w1 tf. variant_try lib rt ev bf i output_bucket
                                       (bucket_name record) k filename fileExt tf w1)
                       w transformations_try)))"

definition getContentTypeFromExtension :: "string \<Rightarrow> string" where
  "getContentTypeFromExtension extension =
     or_default
       (map_of [(''.jpg'', ''image/jpeg''), (''.jpeg'', ''image/jpeg''), (''.png'', ''image/png''),
                (''.gif'', ''image/gif''), (''.webp'', ''image/webp''), (''.tiff'', ''image/tiff''),
                (''.svg'', ''image/svg+xml'')] extension)
       ''application/octet-stream''"

text \<open>\<open>getOutputFormat\<close>; no transformation of the list has a property \<open>outputFormat\<close>.\<close>

definition getOutputFormat :: "string \<Rightarrow> transform \<Rightarrow> string" where
  "getOutputFormat ctype tf =
     (if tf_suffix tf = ''thumb'' then ''webp''
      else if includes_list ctype ''jpeg'' \<or> includes_list ctype ''jpg'' then ''jpeg''
      else if includes_list ctype ''png'' then ''png''
      else if includes_list ctype ''webp'' then ''webp''
      else if includes_list ctype ''gif'' then ''gif''
      else ''jpeg'')"

definition error_message :: "js_error \<Rightarrow> string" where
  "error_message err = (case err of ImageHandlerError _ _ msg \<Rightarrow> msg | Error _ msg \<Rightarrow> msg)"

text \<open>The object \<open>requestInfo\<close> of a variant in the handler after the \<open>try\<close> block.\<close>

definition requestInfo ::
  "env \<Rightarrow> string \<Rightarrow> string \<Rightarrow> buffer \<Rightarrow> string \<Rightarrow> transform \<Rightarrow> ImageRequestInfo" where
  "requestInfo ev bkt k imageBuffer ctype tf =
     (let fmt = getOutputFormat ctype tf in
      \<lparr>requestType = [], bucket = bkt, key = k,
       edits = Some
         ([(''resize'', JObj [(''width'', JNum (of_nat (tf_width tf))),
                             (''height'', JNum (of_nat (tf_height tf))),
                             (''fit'', JStr (or_default (tf_fit tf) ''cover''))]),
           (''toFormat'', JStr fmt),
           (''flatten'', if fmt = ''jpeg'' then JObj [(''background'', JStr ''#ffffff'')]
                         else JUndefined),
           (''compress'', JBool True), (''withMetadata'', JBool False)] @
          (if tf_watermark tf
           then [(''watermark'',
                  JObj [(''text'', JStr (or_default (WATERMARK_TEXT ev)
                                          (char_of (169 :: nat) # '' Copyright''))),
                        (''opacity'', JNum (1 / 2)), (''position'', JStr ''bottom-right'')])]
           else []) @
          (case tf_quality tf of
             None \<Rightarrow> []
           | Some q \<Rightarrow>
               if q = 0 then []
               else if fmt = ''jpeg'' \<or> fmt = ''jpg'' then [(''jpeg'', JObj [(''quality'', JNum (of_nat q))])]
               else if fmt = ''png'' then [(''png'', JObj [(''quality'', JNum (of_nat q))])]
               else if fmt = ''webp'' then [(''webp'', JObj [(''quality'', JNum (of_nat q))])]
               else [])),
       originalImage = imageBuffer, headers = None, contentType = Some ctype, expires = None,
       lastModified = None, cacheControl = None, outputFormat = Some fmt, effort = None,
       secondsToExpiry = None, ContentType = None\<rparr>)"

text \<open>One iteration of the loop over \<open>transformations\<close> in the handler after the \<open>try\<close> block:
  the state and the entry pushed to \<open>processingResults\<close>.\<close>

definition variant_catch ::
  "library \<Rightarrow> runtime \<Rightarrow> env \<Rightarrow> batch_faults \<Rightarrow> nat \<Rightarrow> string \<Rightarrow> string \<Rightarrow> string \<Rightarrow> buffer
   \<Rightarrow> string \<Rightarrow> string \<Rightarrow> transform \<Rightarrow> world \<Rightarrow> world \<times> variant_result" where
  "variant_catch lib rt ev bf i output_bucket bkt k imageBuffer ctype fileName tf w =
     (let fmt = getOutputFormat ctype tf;
          failed = (\<lambda>err. Variant_error (tf_suffix tf)
                      (or_default (Some (error_message err))
                         ''Unknown error during transformation''))
      in case process rt ev (process_faults bf i (tf_suffix tf))
                (requestInfo ev bkt k imageBuffer ctype tf) (attempt i tf w) of
           (Inl err, w1) \<Rightarrow> (w1, failed err)
         | (Inr processedImage, w1) \<Rightarrow>
             let outputKey = ''processed/'' @ fileName @ ''-'' @ tf_suffix tf @ ''.'' @ fmt in
             if putObject_fails bf i (tf_suffix tf)
             then (w1, failed (service_error ''putObject''))
             else
               (w1\<lparr>objects := (objects w1)((output_bucket, outputKey) \<mapsto>
                      \<lparr>Body = processedImage, obj_ContentType = Some (''image/'' @ fmt),
                       obj_CacheControl = Some ''public, max-age=31536000'',
                       obj_LastModified = Some (now rt)\<rparr>)\<rparr>,
                Variant_success (tf_suffix tf) outputKey fmt
                  (''https://'' @ output_bucket @ ''.s3.'' @ or_default (region lib) ''us-east-1'' @
                   ''.amazonaws.com/'' @ outputKey)
                  (tf_width tf) (tf_height tf)))"

text \<open>\<open>key.split('/').pop().split('.')\<close> without its last element, joined with dots.\<close>

definition base_name :: "string \<Rightarrow> string" where
  "base_name k =
     (let seg = split_pop (CHR ''/'') k in
      if CHR ''.'' \<in> set seg then rev (tl (dropWhile (\<lambda>c. c \<noteq> CHR ''.'') (rev seg))) else [])"

text \<open>The handler after the \<open>try\<close> block. Only the decoding of the key is outside its inner
  \<open>try\<close> statements, so it throws when the key cannot be decoded and at no other point.\<close>

definition block_catch ::
  "library \<Rightarrow> runtime \<Rightarrow> env \<Rightarrow> batch_faults \<Rightarrow> nat \<Rightarrow> string \<Rightarrow> S3EventRecord \<Rightarrow> world
   \<Rightarrow> (js_error + unit) \<times> world" where
  "block_catch lib rt ev bf i output_bucket record w =
     (case decodeURIComponent lib (plus_to_space (object_key record)) of
        None \<Rightarrow> (Inl URIError, w)
      | Some k \<Rightarrow>
          if \<not> startsWith k ''uploads/'' then (Inr (), w)
          else if toLowerCase (substring_from k (lastIndexOf k (CHR ''.''))) \<notin> set IMAGE_FORMATS
          then (Inr (), w)
          else
            (case getObject (retry_getObject_fails bf i) (bucket_name record, k) w of
               Inl procError \<Rightarrow>
                 (Inr (),
                  if error_document_put_fails bf i then w
                  else w\<lparr>documents := documents w @
                         [\<lparr>doc_id = generateUniqueId lib, originalBucket = bucket_name record,
                           originalKey = k, doc_status = ''error'', processingResults = [],
                           doc_errorMessage =
                             Some (or_default (Some (error_message procError))
                                     ''Unknown error'')\<rparr>]\<rparr>)
             | Inr imageObject \<Rightarrow>
                 let ctype = or_default (obj_ContentType imageObject)
                               (getContentTypeFromExtension
                                  (toLowerCase (substring_from k (lastIndexOf k (CHR ''.'')))));
                     run = foldl (\<lambda>(w1, results) tf.
                                    case variant_catch lib rt ev bf i output_bucket
                                           (bucket_name record) k (Body imageObject) ctype
                                           (base_name k) tf w1 of
                                      (w2, res) \<Rightarrow> (w2, results @ [res]))
                             (w, []) (transformations_catch ev)
                 in (Inr (),
                     if document_put_fails bf i then fst run
                     else (fst run)\<lparr>documents := documents (fst run) @
                            [\<lparr>doc_id = generateUniqueId lib, originalBucket = bucket_name record,
                              originalKey = k, doc_status = ''completed'',
                              processingResults = snd run, doc_errorMessage = None\<rparr>]\<rparr>)))"

text \<open>The body of the loop over the records. In the source the \<open>try\<close> block is followed by two
  \<open>catch\<close> clauses, which is not a statement of the language. The first clause handles what the
  \<open>try\<close> block throws. The parameter \<open>second_catch\<close> fixes the reading of the second clause:
  when it is true, the clause handles what the first handler throws (the reading of the
  clause's comment, ``continue to the next record''); when it is false, the clause is dead and
  what the first handler throws leaves the function.\<close>

definition handle_record ::
  "library \<Rightarrow> runtime \<Rightarrow> env \<Rightarrow> batch_faults \<Rightarrow> bool \<Rightarrow> nat \<Rightarrow> string \<Rightarrow> S3EventRecord \<Rightarrow> world
   \<Rightarrow> (js_error + unit) \<times> world" where
  "handle_record lib rt ev bf second_catch i output_bucket record w =
     (case block_try lib rt ev bf i output_bucket record w of
        (Inr u, w1) \<Rightarrow> (Inr u, w1)
      | (Inl _, w1) \<Rightarrow>
          (case block_catch lib rt ev bf i output_bucket record w1 of
             (Inr u, w2) \<Rightarrow> (Inr u, w2)
           | (Inl recordError, w2) \<Rightarrow>
               if second_catch then (Inr (), w2) else (Inl recordError, w2)))"

fun process_records ::
  "library \<Rightarrow> runtime \<Rightarrow> env \<Rightarrow> batch_faults \<Rightarrow> bool \<Rightarrow> string \<Rightarrow> nat \<Rightarrow> S3EventRecord list
   \<Rightarrow> world \<Rightarrow> (js_error + unit) \<times> world" where
  "process_records lib rt ev bf second_catch output_bucket i [] w = (Inr (), w)"
| "process_records lib rt ev bf second_catch output_bucket i (record # records) w =
     (case handle_record lib rt ev bf second_catch i output_bucket record
             (w\<lparr>batch_log := batch_log w @ [Record_started i]\<rparr>) of
        (Inl err, w1) \<Rightarrow> (Inl err, w1)
      | (Inr _, w1) \<Rightarrow>
          process_records lib rt ev bf second_catch output_bucket (Suc i) records w1)"

definition handleS3Event ::
  "library \<Rightarrow> runtime \<Rightarrow> env \<Rightarrow> batch_faults \<Rightarrow> bool \<Rightarrow> S3EventRecord list \<Rightarrow> world
   \<Rightarrow> (js_error + unit) \<times> world" where
  "handleS3Event lib rt ev bf second_catch records w =
     (if or_default (OUTPUT_BUCKET ev) [] = []
      then (Inl (Error ''Error'' ''OUTPUT_BUCKET environment variable not set''), w)
      else process_records lib rt ev bf second_catch (or_default (OUTPUT_BUCKET ev) []) 0
             records w)"

subsection \<open>\<open>handler\<close>\<close>

definition isS3Event :: "lambda_event \<Rightarrow> bool" where
  "isS3Event event =
     (case event of
        Notification (record # _) \<Rightarrow> eventSource record = ''aws:s3''
      | _ \<Rightarrow> False)"

text \<open>\<open>normalizeEvent\<close>. In write-back mode the event must have a \<open>userRequest\<close>; otherwise the
  event is used as it is, and an event of another shape has none of the properties of an
  \<open>ImageHandlerEvent\<close>.\<close>

definition normalizeEvent :: "library \<Rightarrow> env \<Rightarrow> lambda_event \<Rightarrow> js_error + ImageHandlerEvent" where
  "normalizeEvent lib ev event =
     (if ENABLE_S3_OBJECT_LAMBDA ev = Some ''Yes'' then
        (case event of
           ObjectLambda userRequest _ \<Rightarrow> dissect_url lib userRequest
         | _ \<Rightarrow> Inl TypeError)
      else
        (case event of
           Proxy e \<Rightarrow> Inr e
         | _ \<Rightarrow> Inr \<lparr>path = None, queryStringParameters = None, requestContext_elb = False,
                      event_headers = []\<rparr>))"

definition timeout_response :: "runtime \<Rightarrow> env \<Rightarrow> ImageHandlerExecutionResult" where
  "timeout_response rt ev =
     (let err = ImageHandlerError TIMEOUT ''TimeoutException'' ''Image processing timed out.'' in
      \<lparr>statusCode = fst (getErrorResponse rt err), isBase64Encoded = False,
       result_headers = getResponseHeaders ev True False,
       body = Text (snd (getErrorResponse rt err))\<rparr>)"

definition buildResponseHeaders ::
  "library \<Rightarrow> ImageHandlerExecutionResult \<Rightarrow> (string \<Rightarrow> string option)" where
  "buildResponseHeaders lib finalResponse =
     (let h0 = (\<lambda>k. case result_headers finalResponse k of
                      Some (Some v) \<Rightarrow> Some (encodeURI_spaces lib v)
                    | _ \<Rightarrow> None);
          v = status_value (statusCode finalResponse);
          h1 = (if 400 \<le> v \<and> v \<le> 499 then h0(''Cache-Control'' \<mapsto> ''max-age=10,public'') else h0)
      in if 500 \<le> v \<and> v < 599 then h1(''Cache-Control'' \<mapsto> ''max-age=600,public'') else h1)"

record WriteGetObjectResponseRequest =
  write_Body :: payload
  RequestRoute :: string
  RequestToken :: string
  CacheControl :: "string option"
  Metadata :: "string \<Rightarrow> string option"

definition buildWriteResponseParams ::
  "S3GetObjectContext \<Rightarrow> ImageHandlerExecutionResult \<Rightarrow> (string \<Rightarrow> string option)
   \<Rightarrow> WriteGetObjectResponseRequest" where
  "buildWriteResponseParams ctx finalResponse responseHeaders =
     (let cc = (case responseHeaders ''Cache-Control'' of
                  None \<Rightarrow> None
                | Some c \<Rightarrow> if c = [] then None else Some c);
          rest = (if cc = None then responseHeaders
                  else responseHeaders(''Cache-Control'' := None))
      in \<lparr>write_Body = body finalResponse, RequestRoute = outputRoute ctx,
          RequestToken = outputToken ctx, CacheControl = cc,
          Metadata = [''StatusCode'' \<mapsto> toString10 (status_value (statusCode finalResponse))]
                       ++ rest\<rparr>)"

definition buildErrorResponseParams ::
  "runtime \<Rightarrow> S3GetObjectContext \<Rightarrow> js_error \<Rightarrow> WriteGetObjectResponseRequest" where
  "buildErrorResponseParams rt ctx err =
     \<lparr>write_Body = Text (snd (getErrorResponse rt err)), RequestRoute = outputRoute ctx,
      RequestToken = outputToken ctx, CacheControl = Some ''max-age-10,public'',
      Metadata = [''StatusCode'' \<mapsto> toString10 (status_value (fst (getErrorResponse rt err)))]\<rparr>"

definition S3ObjectLambdaWriteError :: js_error where
  "S3ObjectLambdaWriteError =
     ImageHandlerError BAD_REQUEST ''S3ObjectLambdaWriteError''
       ''It was not possible to write the response to S3 Object Lambda.''"

definition payload_length :: "payload \<Rightarrow> nat" where
  "payload_length p = (case p of Text s \<Rightarrow> length s | Binary buf \<Rightarrow> length buf)"

datatype handler_result =
    Void
  | Response ImageHandlerExecutionResult
  | HeadObject StatusCodes "string \<Rightarrow> string option"

text \<open>What an invocation of the handler yields: the value it returns or the error it throws,
  the state, and the calls of \<open>writeGetObjectResponse\<close> it has made, in order, each with its
  parameters.\<close>

record handler_outcome =
  returned :: "js_error + handler_result"
  final_world :: world
  writes :: "WriteGetObjectResponseRequest list"

text \<open>The handler. The context of the invocation is supplied by the platform. Which of the
  response and the timer comes first is given by \<open>timeout_first\<close>; the request is processed in
  both cases.\<close>

definition handler ::
  "library \<Rightarrow> runtime \<Rightarrow> env \<Rightarrow> faults \<Rightarrow> batch_faults \<Rightarrow> bool \<Rightarrow> lambda_event \<Rightarrow> world
   \<Rightarrow> handler_outcome" where
  "handler lib rt ev fl bf second_catch event w =
     (if isS3Event event then
        (case handleS3Event lib rt ev bf second_catch
                (case event of Notification records \<Rightarrow> records | _ \<Rightarrow> []) w of
           (Inl err, w1) \<Rightarrow> \<lparr>returned = Inl err, final_world = w1, writes = []\<rparr>
         | (Inr _, w1) \<Rightarrow> \<lparr>returned = Inr Void, final_world = w1, writes = []\<rparr>)
      else
        (case normalizeEvent lib ev event of
           Inl err \<Rightarrow> \<lparr>returned = Inl err, final_world = w, writes = []\<rparr>
         | Inr normalizedEvent \<Rightarrow>
             (case handleRequest lib rt ev fl normalizedEvent w of
                (response, w1) \<Rightarrow>
                  if ENABLE_S3_OBJECT_LAMBDA ev \<noteq> Some ''Yes''
                  then \<lparr>returned = Inr (Response response), final_world = w1, writes = []\<rparr>
                  else
                    let finalResponse = (if timeout_first fl then timeout_response rt ev
                                         else response);
                        responseHeaders = buildResponseHeaders lib finalResponse
                    in (case event of
                          ObjectLambda _ (Some ctx) \<Rightarrow>
                            let params = buildWriteResponseParams ctx finalResponse responseHeaders
                            in if \<not> write_response_fails fl
                               then \<lparr>returned = Inr Void, final_world = w1, writes = [params]\<rparr>
                               else
                                 \<lparr>returned =
                                    (if write_error_response_fails fl
                                     then Inl (service_error ''writeGetObjectResponse'')
                                     else Inr Void),
                                  final_world = w1,
                                  writes = [params,
                                            buildErrorResponseParams rt ctx
                                              S3ObjectLambdaWriteError]\<rparr>
                        | _ \<Rightarrow>
                            \<lparr>returned =
                               Inr (HeadObject (statusCode finalResponse)
                                      (responseHeaders(''Content-Length'' \<mapsto>
                                         toString10 (payload_length (body finalResponse))))),
                             final_world = w1, writes = []\<rparr>))))"

subsection \<open>Observations on the state\<close>

text \<open>The access count of a fingerprint: that of its metadata record, zero when there is no
  record or the record has no count.\<close>

definition access_count :: "world \<Rightarrow> string \<Rightarrow> nat" where
  "access_count w k =
     (case table w k of
        None \<Rightarrow> 0
      | Some m \<Rightarrow> (case accessCount m of None \<Rightarrow> 0 | Some n \<Rightarrow> n))"

text \<open>The value of \<open>modifiedImage\<close> after the edit stage of \<open>process\<close>: the edited bytes when
  the request has edits, the source bytes otherwise.\<close>

definition edited_or_passthrough :: "runtime \<Rightarrow> ImageRequestInfo \<Rightarrow> js_error + buffer" where
  "edited_or_passthrough rt req =
     (case edits req of
        Some e \<Rightarrow> applyEdits rt (originalImage req) e
      | None \<Rightarrow> Inr (originalImage req))"



text \<open>Two readings of the log of the batch handler: the records begun, in order, and the
  suffixes of the variants attempted for the record at a given position, in order.\<close>

definition records_started :: "batch_event list \<Rightarrow> nat list" where
  "records_started evs =
     concat (map (\<lambda>e. case e of Record_started i \<Rightarrow> [i] | Variant_attempted _ _ \<Rightarrow> []) evs)"













subsection \<open>Example inputs\<close>

text \<open>A request for a greyscale WebP rendition of \<open>uploads/cat.png\<close>, and the same request as
  another caller would send it: other image bytes, other headers.\<close>

definition request_cat :: ImageRequestInfo where
  "request_cat =
     \<lparr>requestType = ''Default'', bucket = ''photos'', key = ''uploads/cat.png'',
      edits = Some [(''grayscale'', JBool True)], originalImage = [1, 2, 3], headers = None,
      contentType = None, expires = None, lastModified = None, cacheControl = None,
      outputFormat = Some ''webp'', effort = None, secondsToExpiry = None, ContentType = None\<rparr>"

definition request_cat_again :: ImageRequestInfo where
  "request_cat_again =
     request_cat\<lparr>originalImage := [7, 7], headers := Some [(''Accept'', Some ''image/webp'')],
                 cacheControl := Some ''max-age=60'', effort := Some 4\<rparr>"

text \<open>A platform on which the engine accepts every call and every promise is fulfilled: a
  rendered buffer is the input followed by the number of queued calls.\<close>

definition runtime_ok :: runtime where
  "runtime_ok =
     \<lparr>JSON_stringify = (\<lambda>_. ''{}''), Number = (\<lambda>v. v), sharp_accepts = (\<lambda>_. True),
      metadata = (\<lambda>_. Some \<lparr>meta_format = Some ''png'', meta_width = Some 4,
                              meta_height = Some 3\<rparr>),
      toBuffer = (\<lambda>s. Some (sharp_input s @ [length (sharp_ops s)])),
      svg_buffer = (\<lambda>_. [60]), now = ''2026-01-01T00:00:00.000Z''\<rparr>"



text \<open>An environment with caching enabled, a run without failures, and a run in which every
  write to the store and to the table fails.\<close>

definition env_cache :: env where
  "env_cache =
     \<lparr>OUTPUT_BUCKET_NAME = Some ''out'', ENABLE_CACHE = Some ''Yes'',
      ENABLE_S3_OBJECT_LAMBDA = None, ENABLE_DEFAULT_FALLBACK_IMAGE = None,
      DEFAULT_FALLBACK_IMAGE_BUCKET = None, DEFAULT_FALLBACK_IMAGE_KEY = None,
      CORS_ENABLED = None, CORS_ORIGIN = None, OUTPUT_BUCKET = Some ''out'',
      ENABLE_WATERMARK = None, WATERMARK_TEXT = None, ENABLE_DYNAMODB = None\<rparr>"

definition no_faults :: faults where
  "no_faults =
     \<lparr>headObject_fails = False, db_get_fails = False, db_update_fails = False,
      cached_getObject_fails = False, upload_fails = False, db_put_fails = False,
      db_put_failed_record_fails = False, fallback_getObject_fails = False,
      write_response_fails = False, write_error_response_fails = False,
      timeout_first = False\<rparr>"

definition storage_down :: faults where
  "storage_down =
     no_faults\<lparr>upload_fails := True, db_put_fails := True, db_put_failed_record_fails := True\<rparr>"

definition world_empty :: world where
  "world_empty =
     \<lparr>objects = (\<lambda>_. None), table = (\<lambda>_. None), invoked = [], documents = [],
      batch_log = []\<rparr>"

text \<open>A store that holds an artifact for the fingerprint of \<open>request_cat\<close>, and no metadata
  record for it (the write of the record had failed when the artifact was stored).\<close>

definition cached_cat :: s3_object where
  "cached_cat =
     \<lparr>Body = [9, 9], obj_ContentType = Some ''image/webp'',
      obj_CacheControl = Some ''max-age=31536000'', obj_LastModified = None\<rparr>"

definition world_cached :: world where
  "world_cached =
     world_empty\<lparr>objects :=
       (\<lambda>loc. if loc = (''out'', generateImageId (JSON_stringify runtime_ok) request_cat)
              then Some cached_cat else None)\<rparr>"

text \<open>A request without output format and without edits, whose source is a BMP image.\<close>

definition request_bmp :: ImageRequestInfo where
  "request_bmp =
     request_cat\<lparr>key := ''uploads/scan.bmp'', edits := None, outputFormat := None,
                 ContentType := Some (Some ''bmp'')\<rparr>"

text \<open>A request for the source image as it is: no edits, no output format.\<close>

definition request_plain :: ImageRequestInfo where
  "request_plain = request_cat\<lparr>edits := None, outputFormat := None\<rparr>"

text \<open>The same store with a metadata record for the artifact, read four times so far.\<close>

definition world_tracked :: world where
  "world_tracked =
     world_cached\<lparr>table :=
       (\<lambda>k. if k = generateImageId (JSON_stringify runtime_ok) request_cat
            then Some ((blank_item k)\<lparr>accessCount := Some 4\<rparr>) else None)\<rparr>"

text \<open>A source image of 4718593 bytes, one byte more than what base64 encodes within the payload
  limit, requested as it is; the modules outside the sources; an environment with a fallback
  image, and a store that holds it.\<close>

definition big_image :: buffer where
  "big_image = replicate 4718593 0"

definition request_big :: ImageRequestInfo where
  "request_big =
     request_plain\<lparr>key := ''uploads/poster.png'', originalImage := big_image,
                   ContentType := Some (Some ''png'')\<rparr>"

definition library_ok :: library where
  "library_ok =
     \<lparr>ImageRequest_setup = (\<lambda>_ _. Inr request_big), parseImageHeaders = (\<lambda>_. Inr None),
      ImageRequest_instance = (\<lambda>_ _ _ _ _ _. Inl TypeError),
      isNullOrWhiteSpace =
        (\<lambda>s. case s of None \<Rightarrow> True | Some t \<Rightarrow> list_all (\<lambda>c. c = CHR '' '') t),
      decodeURIComponent = Some, encodeURI_spaces = (\<lambda>s. s),
      dissect_url = (\<lambda>_. Inl TypeError), region = None, generateUniqueId = ''img_1''\<rparr>"

definition event_get :: ImageHandlerEvent where
  "event_get =
     \<lparr>path = Some ''/uploads/poster.png'', queryStringParameters = None,
      requestContext_elb = False, event_headers = []\<rparr>"




text \<open>The write-back mode: an Object Lambda request for an image, a run in which the first
  write of the response fails, and a run in which the second write fails as well.\<close>

definition env_write_back :: env where
  "env_write_back = env_cache\<lparr>ENABLE_S3_OBJECT_LAMBDA := Some ''Yes''\<rparr>"

definition library_write_back :: library where
  "library_write_back = library_ok\<lparr>dissect_url := (\<lambda>_. Inr event_get)\<rparr>"

definition event_object_lambda :: lambda_event where
  "event_object_lambda =
     ObjectLambda \<lparr>url = ''https://ap.example.com/image/uploads/poster.png'',
                   Host = ''ap.example.com''\<rparr>
       (Some \<lparr>outputRoute = ''route-1'', outputToken = ''token-1''\<rparr>)"

definition first_write_fails :: faults where
  "first_write_fails = no_faults\<lparr>write_response_fails := True\<rparr>"

definition both_writes_fail :: faults where
  "both_writes_fail = first_write_fails\<lparr>write_error_response_fails := True\<rparr>"

definition no_batch_faults :: batch_faults where
  "no_batch_faults =
     \<lparr>source_getObject_fails = (\<lambda>_. False), retry_getObject_fails = (\<lambda>_. False),
      putObject_fails = (\<lambda>_ _. False), document_put_fails = (\<lambda>_. False),
      error_document_put_fails = (\<lambda>_. False), process_faults = (\<lambda>_ _. no_faults)\<rparr>"

text \<open>A store that holds an artifact under the fingerprint of \<open>request_bmp\<close>, with a metadata
  record read four times so far, and a run in which the fetch of a cached object fails.\<close>

definition world_scanned :: world where
  "world_scanned =
     world_empty\<lparr>objects :=
                   (\<lambda>loc. if loc = (''out'', generateImageId (JSON_stringify runtime_ok) request_bmp)
                          then Some cached_cat else None),
                 table :=
                   (\<lambda>k. if k = generateImageId (JSON_stringify runtime_ok) request_bmp
                        then Some ((blank_item k)\<lparr>accessCount := Some 4\<rparr>) else None)\<rparr>"

definition fetch_fails :: faults where
  "fetch_fails = no_faults\<lparr>cached_getObject_fails := True\<rparr>"






section \<open>Properties\<close>

subsection \<open>Hexadecimal colours\<close>

lemma after_hash_cases:
  "after_hash s = s \<or> s = CHR ''#'' # after_hash s"
  by (cases s) auto

lemma list_all_hex_class_after_hash:
  "list_all hex_class (after_hash s) \<Longrightarrow>
   hex_colour_spec s \<or> (length (after_hash s) \<noteq> 3 \<and> length (after_hash s) \<noteq> 6)"
  using after_hash_cases [of s]
  by (cases s)
     (auto simp: hex_colour_spec_def hex_digits_3_or_6_def hex_class_def list_all_iff
           split: if_splits)

lemma shorthandRegex_spec: "shorthandRegex s = Some t \<Longrightarrow> hex_colour_spec s"
  using list_all_hex_class_after_hash [of s]
  by (auto simp: shorthandRegex_def split: list.splits if_splits)

lemma fullRegex_spec: "fullRegex s = Some t \<Longrightarrow> hex_colour_spec s"
  using list_all_hex_class_after_hash [of s]
  by (auto simp: fullRegex_def split: list.splits if_splits)

lemma convertHexToRgb_black:
  "\<not> hex_colour_spec hex \<Longrightarrow> convertHexToRgb hex = \<lparr>r = 0, g = 0, b = 0, alpha = None\<rparr>"
proof -
  assume n: "\<not> hex_colour_spec hex"
  from n have s: "shorthandRegex hex = None"
    using shorthandRegex_spec by (cases "shorthandRegex hex") auto
  from n have f: "fullRegex hex = None"
    using fullRegex_spec by (cases "fullRegex hex") auto
  show ?thesis by (simp add: convertHexToRgb_def s f)
qed

lemma convertHexToRgb_0AF:
  "convertHexToRgb ''#0AF'' = \<lparr>r = 0, g = 170, b = 255, alpha = None\<rparr>"
  by (simp add: convertHexToRgb_def shorthandRegex_def fullRegex_def hex_class_def
      parseInt16_def digit16_def)

lemma shorthandRegex_three:
  "hex_class x \<Longrightarrow> hex_class y \<Longrightarrow> hex_class z \<Longrightarrow>
   shorthandRegex [x, y, z] = Some (x, y, z) \<and>
   shorthandRegex [CHR ''#'', x, y, z] = Some (x, y, z)"
  by (auto simp: shorthandRegex_def hex_class_def)

lemma digit16_value: "hex_class c \<Longrightarrow> digit16 c = hex_digit_value c"
  by (auto simp: hex_class_def digit16_def hex_digit_value_def)

lemma parseInt16_pair: "parseInt16 [x, y] = 16 * digit16 x + digit16 y"
  by (simp add: parseInt16_def)

lemma convertHexToRgb_six:
  assumes "list_all hex_class [x1, x2, y1, y2, z1, z2]"
  shows "convertHexToRgb [x1, x2, y1, y2, z1, z2] =
           \<lparr>r = 16 * hex_digit_value x1 + hex_digit_value x2,
            g = 16 * hex_digit_value y1 + hex_digit_value y2,
            b = 16 * hex_digit_value z1 + hex_digit_value z2, alpha = None\<rparr>"
    and "convertHexToRgb [CHR ''#'', x1, x2, y1, y2, z1, z2] =
           convertHexToRgb [x1, x2, y1, y2, z1, z2]"
proof -
  from assms have "hex_class x1" by simp
  then have n: "x1 \<noteq> CHR ''#''" by (auto simp: hex_class_def)
  have s: "shorthandRegex [x1, x2, y1, y2, z1, z2] = None"
    "shorthandRegex [CHR ''#'', x1, x2, y1, y2, z1, z2] = None"
    by (simp_all add: shorthandRegex_def)
  from assms n have f: "fullRegex [x1, x2, y1, y2, z1, z2] = Some ([x1, x2], [y1, y2], [z1, z2])"
    "fullRegex [CHR ''#'', x1, x2, y1, y2, z1, z2] = Some ([x1, x2], [y1, y2], [z1, z2])"
    by (simp_all add: fullRegex_def)
  from assms show "convertHexToRgb [x1, x2, y1, y2, z1, z2] =
           \<lparr>r = 16 * hex_digit_value x1 + hex_digit_value x2,
            g = 16 * hex_digit_value y1 + hex_digit_value y2,
            b = 16 * hex_digit_value z1 + hex_digit_value z2, alpha = None\<rparr>"
    by (simp add: convertHexToRgb_def s f parseInt16_pair digit16_value)
  show "convertHexToRgb [CHR ''#'', x1, x2, y1, y2, z1, z2] =
           convertHexToRgb [x1, x2, y1, y2, z1, z2]"
    by (simp add: convertHexToRgb_def s f)
qed

lemma convertHexToRgb_three:
  assumes "hex_class x" "hex_class y" "hex_class z"
  shows "convertHexToRgb [x, y, z] = convertHexToRgb [x, x, y, y, z, z]"
    and "convertHexToRgb [CHR ''#'', x, y, z] = convertHexToRgb [x, x, y, y, z, z]"
proof -
  have six: "shorthandRegex [x, x, y, y, z, z] = None"
    by (simp add: shorthandRegex_def)
  show "convertHexToRgb [x, y, z] = convertHexToRgb [x, x, y, y, z, z]"
    using assms shorthandRegex_three [of x y z] by (simp add: convertHexToRgb_def six)
  show "convertHexToRgb [CHR ''#'', x, y, z] = convertHexToRgb [x, x, y, y, z, z]"
    using assms shorthandRegex_three [of x y z] by (simp add: convertHexToRgb_def six)
qed

text \<open>
  C8. \<open>convertHexToRgb\<close> is a total function of the string and has no failing branch. A
  colour of three hexadecimal digits, with or without the hash sign, yields what the six digits
  obtained by doubling each one yield, that is seventeen times the value of each digit; so
  \<open>#0AF\<close> yields red 0, green 170, blue 255. A colour of six hexadecimal digits, with or
  without the hash sign, yields the values of its three pairs of digits. Every string that is
  not three or six hexadecimal digits after an optional hash sign yields black.
\<close>

theorem convertHexToRgb_spec:
  "convertHexToRgb ''#0AF'' = \<lparr>r = 0, g = 170, b = 255, alpha = None\<rparr> \<and>
   (\<forall>x y z. hex_class x \<and> hex_class y \<and> hex_class z \<longrightarrow>
      convertHexToRgb [x, y, z] = convertHexToRgb [x, x, y, y, z, z] \<and>
      convertHexToRgb [CHR ''#'', x, y, z] = convertHexToRgb [x, x, y, y, z, z] \<and>
      convertHexToRgb [x, y, z] =
        \<lparr>r = 17 * hex_digit_value x, g = 17 * hex_digit_value y, b = 17 * hex_digit_value z,
         alpha = None\<rparr>) \<and>
   (\<forall>x1 x2 y1 y2 z1 z2. list_all hex_class [x1, x2, y1, y2, z1, z2] \<longrightarrow>
      convertHexToRgb [x1, x2, y1, y2, z1, z2] =
        \<lparr>r = 16 * hex_digit_value x1 + hex_digit_value x2,
         g = 16 * hex_digit_value y1 + hex_digit_value y2,
         b = 16 * hex_digit_value z1 + hex_digit_value z2, alpha = None\<rparr> \<and>
      convertHexToRgb [CHR ''#'', x1, x2, y1, y2, z1, z2] =
        convertHexToRgb [x1, x2, y1, y2, z1, z2]) \<and>
   (\<forall>hex. \<not> hex_colour_spec hex \<longrightarrow>
      convertHexToRgb hex = \<lparr>r = 0, g = 0, b = 0, alpha = None\<rparr>)"
proof (intro conjI allI impI)
  show "convertHexToRgb ''#0AF'' = \<lparr>r = 0, g = 170, b = 255, alpha = None\<rparr>"
    by (rule convertHexToRgb_0AF)
next
  fix x y z
  assume h: "hex_class x \<and> hex_class y \<and> hex_class z"
  then have h3: "hex_class x" "hex_class y" "hex_class z" by simp_all
  show e: "convertHexToRgb [x, y, z] = convertHexToRgb [x, x, y, y, z, z]"
    by (rule convertHexToRgb_three(1) [OF h3])
  show "convertHexToRgb [CHR ''#'', x, y, z] = convertHexToRgb [x, x, y, y, z, z]"
    by (rule convertHexToRgb_three(2) [OF h3])
  from h3 have "list_all hex_class [x, x, y, y, z, z]" by simp
  from convertHexToRgb_six(1) [OF this]
  show "convertHexToRgb [x, y, z] =
        \<lparr>r = 17 * hex_digit_value x, g = 17 * hex_digit_value y, b = 17 * hex_digit_value z,
         alpha = None\<rparr>"
    by (simp add: e)
next
  fix x1 x2 y1 y2 z1 z2
  assume a: "list_all hex_class [x1, x2, y1, y2, z1, z2]"
  show "convertHexToRgb [x1, x2, y1, y2, z1, z2] =
        \<lparr>r = 16 * hex_digit_value x1 + hex_digit_value x2,
         g = 16 * hex_digit_value y1 + hex_digit_value y2,
         b = 16 * hex_digit_value z1 + hex_digit_value z2, alpha = None\<rparr>"
    by (rule convertHexToRgb_six(1) [OF a])
  show "convertHexToRgb [CHR ''#'', x1, x2, y1, y2, z1, z2] =
        convertHexToRgb [x1, x2, y1, y2, z1, z2]"
    by (rule convertHexToRgb_six(2) [OF a])
next
  fix hex
  assume "\<not> hex_colour_spec hex"
  then show "convertHexToRgb hex = \<lparr>r = 0, g = 0, b = 0, alpha = None\<rparr>"
    by (rule convertHexToRgb_black)
qed

theorem convertHexToRgb_spec_witness:
  "hex_class CHR ''0'' \<and> hex_class CHR ''A'' \<and> hex_class CHR ''F'' \<and>
   convertHexToRgb ''0AF'' = \<lparr>r = 0, g = 170, b = 255, alpha = None\<rparr> \<and>
   convertHexToRgb ''#FFF'' = \<lparr>r = 255, g = 255, b = 255, alpha = None\<rparr> \<and>
   list_all hex_class ''1e90ff'' \<and>
   convertHexToRgb ''1e90ff'' = \<lparr>r = 30, g = 144, b = 255, alpha = None\<rparr> \<and>
   convertHexToRgb ''#1e90ff'' = \<lparr>r = 30, g = 144, b = 255, alpha = None\<rparr> \<and>
   \<not> hex_colour_spec ''notacolor'' \<and>
   convertHexToRgb ''notacolor'' = \<lparr>r = 0, g = 0, b = 0, alpha = None\<rparr>"
proof -
  have c: "hex_class CHR ''0'' \<and> hex_class CHR ''A'' \<and> hex_class CHR ''F''"
    by (simp add: hex_class_def)
  have f: "hex_class CHR ''F'' \<and> hex_class CHR ''F'' \<and> hex_class CHR ''F''"
    by (simp add: hex_class_def)
  have l: "list_all hex_class ''1e90ff''" by (simp add: hex_class_def)
  have n: "\<not> hex_colour_spec ''notacolor''"
    by (simp add: hex_colour_spec_def hex_digits_3_or_6_def)
  have v: "hex_digit_value CHR ''0'' = 0" "hex_digit_value CHR ''A'' = 10"
    "hex_digit_value CHR ''F'' = 15" "hex_digit_value CHR ''1'' = 1"
    "hex_digit_value CHR ''e'' = 14" "hex_digit_value CHR ''9'' = 9"
    "hex_digit_value CHR ''f'' = 15"
    by (simp_all add: hex_digit_value_def)
  note t = convertHexToRgb_spec
  from t have s: "\<forall>x y z. hex_class x \<and> hex_class y \<and> hex_class z \<longrightarrow>
      convertHexToRgb [x, y, z] = convertHexToRgb [x, x, y, y, z, z] \<and>
      convertHexToRgb [CHR ''#'', x, y, z] = convertHexToRgb [x, x, y, y, z, z] \<and>
      convertHexToRgb [x, y, z] =
        \<lparr>r = 17 * hex_digit_value x, g = 17 * hex_digit_value y, b = 17 * hex_digit_value z,
         alpha = None\<rparr>"
    by (rule conjunct1 [OF conjunct2])
  from t have x: "\<forall>x1 x2 y1 y2 z1 z2. list_all hex_class [x1, x2, y1, y2, z1, z2] \<longrightarrow>
      convertHexToRgb [x1, x2, y1, y2, z1, z2] =
        \<lparr>r = 16 * hex_digit_value x1 + hex_digit_value x2,
         g = 16 * hex_digit_value y1 + hex_digit_value y2,
         b = 16 * hex_digit_value z1 + hex_digit_value z2, alpha = None\<rparr> \<and>
      convertHexToRgb [CHR ''#'', x1, x2, y1, y2, z1, z2] =
        convertHexToRgb [x1, x2, y1, y2, z1, z2]"
    by (rule conjunct1 [OF conjunct2 [OF conjunct2]])
  from t have d: "\<forall>hex. \<not> hex_colour_spec hex \<longrightarrow>
      convertHexToRgb hex = \<lparr>r = 0, g = 0, b = 0, alpha = None\<rparr>"
    by (rule conjunct2 [OF conjunct2 [OF conjunct2]])
  note s1 = s [rule_format, OF c] and s2 = s [rule_format, OF f] and x1 = x [rule_format, OF l]
  have r1: "convertHexToRgb ''0AF'' = \<lparr>r = 0, g = 170, b = 255, alpha = None\<rparr>"
    using conjunct2 [OF conjunct2 [OF s1]] by (simp only: v) simp
  have "convertHexToRgb ''#FFF'' = convertHexToRgb ''FFF''"
    using conjunct1 [OF s2] conjunct1 [OF conjunct2 [OF s2]] by (rule ssubst)
  also have "\<dots> = \<lparr>r = 255, g = 255, b = 255, alpha = None\<rparr>"
    using conjunct2 [OF conjunct2 [OF s2]] by (simp only: v) simp
  finally have r2: "convertHexToRgb ''#FFF'' = \<lparr>r = 255, g = 255, b = 255, alpha = None\<rparr>" .
  have r3: "convertHexToRgb ''1e90ff'' = \<lparr>r = 30, g = 144, b = 255, alpha = None\<rparr>"
    using conjunct1 [OF x1] by (simp only: v) simp
  have r3': "convertHexToRgb ''#1e90ff'' = \<lparr>r = 30, g = 144, b = 255, alpha = None\<rparr>"
    using conjunct2 [OF x1] by (simp only: r3)
  from d [rule_format, OF n] have r4:
    "convertHexToRgb ''notacolor'' = \<lparr>r = 0, g = 0, b = 0, alpha = None\<rparr>" .
  show ?thesis by (intro conjI conjunct1 [OF c] conjunct1 [OF conjunct2 [OF c]]
        conjunct2 [OF conjunct2 [OF c]] r1 r2 l r3 r3' n r4)
qed

subsection \<open>Fingerprint\<close>

text \<open>
  C2. The image id is a function of the bucket, the key, the serialised edits and the output
  format: two requests that agree on these four have the same id, whatever their other fields
  (image bytes, headers, cache control, ...) are, and whatever the serialisation function is.
\<close>

theorem generateImageId_deterministic:
  "bucket req1 = bucket req2 \<Longrightarrow> key req1 = key req2 \<Longrightarrow>
   editString stringify req1 = editString stringify req2 \<Longrightarrow>
   outputFormat req1 = outputFormat req2 \<Longrightarrow>
   generateImageId stringify req1 = generateImageId stringify req2"
  by (simp add: generateImageId_def)

theorem generateImageId_deterministic_witness:
  "bucket request_cat = bucket request_cat_again \<and>
   key request_cat = key request_cat_again \<and>
   editString (\<lambda>_. ''{}'') request_cat = editString (\<lambda>_. ''{}'') request_cat_again \<and>
   outputFormat request_cat = outputFormat request_cat_again \<and>
   originalImage request_cat \<noteq> originalImage request_cat_again \<and>
   generateImageId (\<lambda>_. ''{}'') request_cat = generateImageId (\<lambda>_. ''{}'') request_cat_again"
proof -
  have h: "bucket request_cat = bucket request_cat_again"
    "key request_cat = key request_cat_again"
    "editString (\<lambda>_. ''{}'') request_cat = editString (\<lambda>_. ''{}'') request_cat_again"
    "outputFormat request_cat = outputFormat request_cat_again"
    by (simp_all add: request_cat_again_def editString_def)
  have "originalImage request_cat \<noteq> originalImage request_cat_again"
    by (simp add: request_cat_again_def request_cat_def)
  with h generateImageId_deterministic [OF h] show ?thesis by simp
qed

subsection \<open>The edit pipeline\<close>




























































subsection \<open>The orchestrator\<close>

lemma logged_frame [simp]:
  "objects (logged c w) = objects w" "table (logged c w) = table w"
  "invoked (logged c w) = invoked w @ [c]"
  by (simp_all add: logged_def)

lemma updateImageMetadata_frame:
  "objects (snd (updateImageMetadata rt fl k upd w)) = objects w"
  "invoked (snd (updateImageMetadata rt fl k upd w)) = invoked w"
  by (simp_all add: updateImageMetadata_def Let_def)

lemma updateAccessStats_frame:
  "objects (updateAccessStats rt fl k w) = objects w"
  "invoked (updateAccessStats rt fl k w) = invoked w"
  by (simp_all add: updateAccessStats_def getImageMetadata_def updateImageMetadata_frame Let_def
           split: sum.splits option.splits)

lemma updateImageMetadata_table:
  "table (snd (updateImageMetadata rt fl k upd w)) k =
     (if db_update_fails fl then table w k
      else Some ((upd (case table w k of None \<Rightarrow> blank_item k | Some m \<Rightarrow> m))
                  \<lparr>imageId := imageId (case table w k of None \<Rightarrow> blank_item k | Some m \<Rightarrow> m),
                   updatedAt := Some (now rt)\<rparr>))"
  by (simp add: updateImageMetadata_def Let_def)

lemma updateAccessStats_count:
  "access_count (updateAccessStats rt fl k w) k =
     (if table w k \<noteq> None \<and> \<not> db_get_fails fl \<and> \<not> db_update_fails fl
      then access_count w k + 1 else access_count w k)"
proof (cases "db_get_fails fl")
  case True
  then show ?thesis by (simp add: updateAccessStats_def getImageMetadata_def)
next
  case False
  show ?thesis
  proof (cases "table w k")
    case None
    with False show ?thesis by (simp add: updateAccessStats_def getImageMetadata_def)
  next
    case (Some m)
    with False show ?thesis
      by (simp add: updateAccessStats_def getImageMetadata_def access_count_def
            updateImageMetadata_table Let_def split: option.splits)
  qed
qed

lemma getObject_objects: "objects w1 = objects w \<Longrightarrow> getObject f loc w1 = getObject f loc w"
  by (simp add: getObject_def)

lemma cache_check_hit:
  assumes "doesProcessedImageExist ev fl k w = Inr True"
    and "getObject (cached_getObject_fails fl) (or_default (OUTPUT_BUCKET_NAME ev) [], k) w = Inr obj"
  shows "cache_check rt ev fl k w =
           (Some (Body obj), updateAccessStats rt fl k (logged UpdateAccessStats w))"
proof -
  have "getObject (cached_getObject_fails fl) (or_default (OUTPUT_BUCKET_NAME ev) [], k)
          (updateAccessStats rt fl k (logged UpdateAccessStats w)) =
        getObject (cached_getObject_fails fl) (or_default (OUTPUT_BUCKET_NAME ev) [], k) w"
    by (rule getObject_objects) (simp add: updateAccessStats_frame)
  with assms(2) have "getObject (cached_getObject_fails fl) (or_default (OUTPUT_BUCKET_NAME ev) [], k)
          (updateAccessStats rt fl k (logged UpdateAccessStats w)) = Inr obj"
    by simp
  with assms(1) show ?thesis by (simp add: cache_check_def)
qed

lemma cache_check_miss:
  "doesProcessedImageExist ev fl k w \<noteq> Inr True \<Longrightarrow> cache_check rt ev fl k w = (None, w)"
  by (cases "doesProcessedImageExist ev fl k w") (auto simp: cache_check_def split: bool.splits)

lemma cache_check_cases:
  "cache_check rt ev fl k w = (None, w) \<or>
   snd (cache_check rt ev fl k w) = updateAccessStats rt fl k (logged UpdateAccessStats w)"
  by (simp add: cache_check_def Let_def split: sum.splits bool.splits)

lemma cache_check_frame:
  "objects (snd (cache_check rt ev fl k w)) = objects w"
  "\<exists>cs. invoked (snd (cache_check rt ev fl k w)) = invoked w @ cs \<and> set cs \<subseteq> {UpdateAccessStats}"
  using cache_check_cases [of rt ev fl k w]
  by (auto simp: updateAccessStats_frame)

lemma process_after_miss:
  assumes "cache_check rt ev fl (generateImageId (JSON_stringify rt) req) w = (None, w1)"
    and "source_contentType rt req = Inr ctype" and "formats_include ctype"
    and "edited_or_passthrough rt req = Inr modifiedImage"
  shows "process rt ev fl req w =
           (let w2 = (case edits req of Some e \<Rightarrow> logged ApplyEdits w1 | None \<Rightarrow> w1) in
            if or_default (outputFormat req) [] \<noteq> [] \<and> formats_include (outputFormat req)
            then convert_and_store rt ev fl req ctype (or_default (outputFormat req) [])
                   modifiedImage w2
            else (Inr modifiedImage, w2))"
  using assms
  by (cases "edits req") (simp_all add: process_def edited_or_passthrough_def Let_def)

lemma exists_cached:
  "doesProcessedImageExist env_cache no_faults
     (generateImageId (JSON_stringify runtime_ok) request_cat) world_cached = Inr True"
  "doesProcessedImageExist env_cache no_faults
     (generateImageId (JSON_stringify runtime_ok) request_cat) world_tracked = Inr True"
  by (simp_all add: doesProcessedImageExist_def world_cached_def world_tracked_def
        world_empty_def getOutputBucket_def env_cache_def no_faults_def or_default_def)

lemma fetch_cached:
  "getObject (cached_getObject_fails no_faults)
     (or_default (OUTPUT_BUCKET_NAME env_cache) [],
      generateImageId (JSON_stringify runtime_ok) request_cat) world_cached = Inr cached_cat"
  "getObject (cached_getObject_fails no_faults)
     (or_default (OUTPUT_BUCKET_NAME env_cache) [],
      generateImageId (JSON_stringify runtime_ok) request_cat) world_tracked = Inr cached_cat"
  by (simp_all add: getObject_def world_cached_def world_tracked_def world_empty_def
        env_cache_def no_faults_def or_default_def)

lemma miss_empty:
  "doesProcessedImageExist env_cache fl k world_empty \<noteq> Inr True"
  by (simp add: doesProcessedImageExist_def world_empty_def)

lemma cat_edited: "edited_or_passthrough runtime_ok request_cat = Inr [1, 2, 3, 1]"
  by (simp add: edited_or_passthrough_def request_cat_def applyEdits_def
        editPipeline_def runtime_ok_def bindE_def await_def
        resize_step_def grayscale_step_def flip_step_def flop_step_def rotate_step_def
        background_step_def flatten_step_def rgb_step_def normalize_step_def threshold_step_def
        sharpen_step_def blur_step_def extend_step_def watermark_step_def format_step_def
        obj_get_def truthy_def call_def sharp_call_def Sharp_def colour_or_def)

lemma cat_formatted:
  "applyFormatting runtime_ok [1, 2, 3, 1] (Some ''png'') ''webp'' = Inr [1, 2, 3, 1, 1]"
  by (simp add: applyFormatting_def runtime_ok_def bindE_def await_def sharp_call_def Sharp_def)

text \<open>
  C1, amended. When an artifact is stored under the fingerprint of the request and the fetch of
  the cached object succeeds, \<open>process\<close> returns the cached bytes; it invokes neither
  \<open>applyEdits\<close> nor \<open>applyFormatting\<close> (its only logged call is the update of the access
  statistics) and writes no object. The access count of the fingerprint grows by exactly one
  when a metadata record for it exists and both the read and the update of the record
  succeed; otherwise the count stays as it was, and the request succeeds all the same.
\<close>

theorem process_cache_hit:
  assumes "doesProcessedImageExist ev fl (generateImageId (JSON_stringify rt) req) w = Inr True"
    and "getObject (cached_getObject_fails fl)
           (or_default (OUTPUT_BUCKET_NAME ev) [], generateImageId (JSON_stringify rt) req) w = Inr obj"
  shows "fst (process rt ev fl req w) = Inr (Body obj) \<and>
         invoked (snd (process rt ev fl req w)) = invoked w @ [UpdateAccessStats] \<and>
         objects (snd (process rt ev fl req w)) = objects w \<and>
         access_count (snd (process rt ev fl req w)) (generateImageId (JSON_stringify rt) req) =
           (if table w (generateImageId (JSON_stringify rt) req) \<noteq> None \<and>
               \<not> db_get_fails fl \<and> \<not> db_update_fails fl
            then access_count w (generateImageId (JSON_stringify rt) req) + 1
            else access_count w (generateImageId (JSON_stringify rt) req))"
proof -
  let ?k = "generateImageId (JSON_stringify rt) req"
  have p: "process rt ev fl req w =
      (Inr (Body obj), updateAccessStats rt fl ?k (logged UpdateAccessStats w))"
    by (simp add: process_def cache_check_hit [OF assms])
  have t: "table (logged UpdateAccessStats w) = table w"
    "access_count (logged UpdateAccessStats w) ?k = access_count w ?k"
    by (simp_all add: access_count_def)
  show ?thesis
    by (simp add: p updateAccessStats_frame updateAccessStats_count t)
qed

text \<open>The claim as stated fails when the artifact has no metadata record: the cached bytes are
  returned and no count is incremented.\<close>

theorem process_cache_hit_counterexample:
  "doesProcessedImageExist env_cache no_faults
     (generateImageId (JSON_stringify runtime_ok) request_cat) world_cached = Inr True \<and>
   getObject (cached_getObject_fails no_faults)
     (or_default (OUTPUT_BUCKET_NAME env_cache) [],
      generateImageId (JSON_stringify runtime_ok) request_cat) world_cached = Inr cached_cat \<and>
   fst (process runtime_ok env_cache no_faults request_cat world_cached) = Inr (Body cached_cat) \<and>
   access_count (snd (process runtime_ok env_cache no_faults request_cat world_cached))
     (generateImageId (JSON_stringify runtime_ok) request_cat) \<noteq>
   access_count world_cached (generateImageId (JSON_stringify runtime_ok) request_cat) + 1"
proof -
  let ?k = "generateImageId (JSON_stringify runtime_ok) request_cat"
  have p: "process runtime_ok env_cache no_faults request_cat world_cached =
      (Inr (Body cached_cat),
       updateAccessStats runtime_ok no_faults ?k (logged UpdateAccessStats world_cached))"
    by (simp add: process_def cache_check_hit [OF exists_cached(1) fetch_cached(1)])
  have t: "table world_cached ?k = None"
    by (simp add: world_cached_def world_empty_def)
  have "access_count (updateAccessStats runtime_ok no_faults ?k
            (logged UpdateAccessStats world_cached)) ?k =
        access_count (logged UpdateAccessStats world_cached) ?k"
    by (simp add: updateAccessStats_count t)
  also have "\<dots> = access_count world_cached ?k"
    by (simp add: access_count_def)
  finally have "access_count (updateAccessStats runtime_ok no_faults ?k
            (logged UpdateAccessStats world_cached)) ?k =
        access_count world_cached ?k" .
  with p exists_cached(1) fetch_cached(1) show ?thesis by simp
qed

theorem process_cache_hit_witness:
  "doesProcessedImageExist env_cache no_faults
     (generateImageId (JSON_stringify runtime_ok) request_cat) world_tracked = Inr True \<and>
   getObject (cached_getObject_fails no_faults)
     (or_default (OUTPUT_BUCKET_NAME env_cache) [],
      generateImageId (JSON_stringify runtime_ok) request_cat) world_tracked = Inr cached_cat \<and>
   fst (process runtime_ok env_cache no_faults request_cat world_tracked) = Inr [9, 9] \<and>
   invoked (snd (process runtime_ok env_cache no_faults request_cat world_tracked)) =
     [UpdateAccessStats] \<and>
   access_count world_tracked (generateImageId (JSON_stringify runtime_ok) request_cat) = 4 \<and>
   access_count (snd (process runtime_ok env_cache no_faults request_cat world_tracked))
     (generateImageId (JSON_stringify runtime_ok) request_cat) = 5"
proof -
  let ?k = "generateImageId (JSON_stringify runtime_ok) request_cat"
  have a: "access_count world_tracked ?k = 4" "table world_tracked ?k \<noteq> None"
    "invoked world_tracked = []"
    by (simp_all add: access_count_def world_tracked_def world_cached_def world_empty_def)
  have f: "\<not> db_get_fails no_faults" "\<not> db_update_fails no_faults"
    by (simp_all add: no_faults_def)
  have c: "Body cached_cat = [9, 9]" by (simp add: cached_cat_def)
  from process_cache_hit [OF exists_cached(2) fetch_cached(2)] a f c
  show ?thesis using exists_cached(2) fetch_cached(2) by simp
qed

lemma updateAccessStats_table_other:
  "k' \<noteq> k \<Longrightarrow> table (updateAccessStats rt fl k w) k' = table w k'"
  by (simp add: updateAccessStats_def getImageMetadata_def updateImageMetadata_def Let_def
           split: sum.splits option.splits)

lemma cache_check_state:
  "snd (cache_check rt ev fl k w) =
     (if doesProcessedImageExist ev fl k w = Inr True
      then updateAccessStats rt fl k (logged UpdateAccessStats w) else w)"
  by (simp add: cache_check_def Let_def split: sum.splits bool.splits)

lemma process_rejects:
  assumes "fst (cache_check rt ev fl (generateImageId (JSON_stringify rt) req) w) = None"
    and "source_contentType rt req = Inr ctype" and "\<not> formats_include ctype"
  shows "process rt ev fl req w =
           (Inl (ImageHandlerError BAD_REQUEST ''ImageFormatNotSupported''
                   ''The requested image format is not supported.''),
            snd (cache_check rt ev fl (generateImageId (JSON_stringify rt) req) w))"
proof -
  obtain w1 where c: "cache_check rt ev fl (generateImageId (JSON_stringify rt) req) w = (None, w1)"
    using assms(1) by (cases "cache_check rt ev fl (generateImageId (JSON_stringify rt) req) w") auto
  show ?thesis using assms(2,3) by (simp add: process_def c)
qed

lemma scanned_exists:
  "doesProcessedImageExist env_cache fetch_fails
     (generateImageId (JSON_stringify runtime_ok) request_bmp) world_scanned = Inr True"
  by (simp add: doesProcessedImageExist_def world_scanned_def world_empty_def
        getOutputBucket_def env_cache_def fetch_fails_def no_faults_def or_default_def)

lemma scanned_miss:
  "fst (cache_check runtime_ok env_cache fetch_fails
          (generateImageId (JSON_stringify runtime_ok) request_bmp) world_scanned) = None"
proof -
  have g: "cached_getObject_fails fetch_fails" by (simp add: fetch_fails_def no_faults_def)
  show ?thesis by (simp add: cache_check_def scanned_exists getObject_def g)
qed

lemma bmp_contentType: "source_contentType runtime_ok request_bmp = Inr (Some ''bmp'')"
  by (simp add: source_contentType_def request_bmp_def)

text \<open>
  C3, amended. On a cache miss (the cache check yields no artifact), a request whose source
  content type is determined and is none of jpeg, png, webp, tiff, gif, avif is rejected with
  \<open>ImageFormatNotSupported\<close> and status \<open>BAD_REQUEST\<close>, which is 400, and nothing is written
  to the artifact store. When the existence check did not answer yes, the state after the
  rejection is the state before it. When it answered yes and the fetch of the cached object
  then failed, the access statistics of the fingerprint have been updated before the
  rejection, and that record is the only one of the table that may differ.
\<close>

theorem process_unsupported_format:
  assumes "fst (cache_check rt ev fl (generateImageId (JSON_stringify rt) req) w) = None"
    and "source_contentType rt req = Inr ctype"
    and "ctype \<notin> {Some ''jpeg'', Some ''png'', Some ''webp'', Some ''tiff'', Some ''gif'', Some ''avif''}"
  shows "fst (process rt ev fl req w) =
           Inl (ImageHandlerError BAD_REQUEST ''ImageFormatNotSupported''
                  ''The requested image format is not supported.'') \<and>
         status_value BAD_REQUEST = 400 \<and>
         objects (snd (process rt ev fl req w)) = objects w \<and>
         (doesProcessedImageExist ev fl (generateImageId (JSON_stringify rt) req) w \<noteq> Inr True \<longrightarrow>
            snd (process rt ev fl req w) = w) \<and>
         (doesProcessedImageExist ev fl (generateImageId (JSON_stringify rt) req) w = Inr True \<longrightarrow>
            snd (process rt ev fl req w) =
              updateAccessStats rt fl (generateImageId (JSON_stringify rt) req)
                (logged UpdateAccessStats w)) \<and>
         (\<forall>k. k \<noteq> generateImageId (JSON_stringify rt) req \<longrightarrow>
            table (snd (process rt ev fl req w)) k = table w k)"
proof -
  let ?k = "generateImageId (JSON_stringify rt) req"
  from assms(3) have "\<not> formats_include ctype"
    by (cases ctype) (auto simp: formats_include_def ImageFormatTypes_def)
  note p = process_rejects [OF assms(1,2) this]
  have o: "objects (snd (process rt ev fl req w)) = objects w"
    by (simp add: p cache_check_frame)
  have t: "\<forall>k. k \<noteq> ?k \<longrightarrow> table (snd (process rt ev fl req w)) k = table w k"
    by (simp add: p cache_check_state updateAccessStats_table_other)
  show ?thesis
    using o t by (simp add: p cache_check_state)
qed

text \<open>The claim as stated fails when the artifact exists and its fetch fails: the request is
  rejected with status 400 after the access count of its record has gone from four to five.\<close>

theorem process_unsupported_format_counterexample:
  "fst (cache_check runtime_ok env_cache fetch_fails
          (generateImageId (JSON_stringify runtime_ok) request_bmp) world_scanned) = None \<and>
   source_contentType runtime_ok request_bmp = Inr (Some ''bmp'') \<and>
   fst (process runtime_ok env_cache fetch_fails request_bmp world_scanned) =
     Inl (ImageHandlerError BAD_REQUEST ''ImageFormatNotSupported''
            ''The requested image format is not supported.'') \<and>
   access_count world_scanned (generateImageId (JSON_stringify runtime_ok) request_bmp) = 4 \<and>
   access_count (snd (process runtime_ok env_cache fetch_fails request_bmp world_scanned))
     (generateImageId (JSON_stringify runtime_ok) request_bmp) = 5 \<and>
   table (snd (process runtime_ok env_cache fetch_fails request_bmp world_scanned)) \<noteq>
     table world_scanned"
proof -
  let ?k = "generateImageId (JSON_stringify runtime_ok) request_bmp"
  let ?w = "snd (process runtime_ok env_cache fetch_fails request_bmp world_scanned)"
  have nf: "\<not> formats_include (Some ''bmp'')"
    by (simp add: formats_include_def ImageFormatTypes_def)
  note p = process_rejects [OF scanned_miss bmp_contentType nf]
  have r: "fst (process runtime_ok env_cache fetch_fails request_bmp world_scanned) =
     Inl (ImageHandlerError BAD_REQUEST ''ImageFormatNotSupported''
            ''The requested image format is not supported.'')"
    by (simp only: p fst_conv)
  have s: "?w = updateAccessStats runtime_ok fetch_fails ?k (logged UpdateAccessStats world_scanned)"
    by (simp only: p snd_conv cache_check_state scanned_exists) simp
  have a: "access_count world_scanned ?k = 4"
    by (simp add: access_count_def world_scanned_def world_empty_def)
  have l: "access_count (logged UpdateAccessStats world_scanned) ?k = 4"
    by (simp add: access_count_def world_scanned_def world_empty_def)
  have tk: "table (logged UpdateAccessStats world_scanned) ?k \<noteq> None"
    by (simp add: world_scanned_def world_empty_def)
  have f: "\<not> db_get_fails fetch_fails" "\<not> db_update_fails fetch_fails"
    by (simp_all add: fetch_fails_def no_faults_def)
  have b: "access_count ?w ?k = 5"
    using tk f by (simp only: s updateAccessStats_count l) simp
  from a b have "access_count ?w ?k \<noteq> access_count world_scanned ?k" by simp
  then have n: "table ?w \<noteq> table world_scanned" by (auto simp: access_count_def)
  show ?thesis by (intro conjI scanned_miss bmp_contentType r a b n)
qed

theorem process_unsupported_format_witness:
  "fst (cache_check runtime_ok env_cache no_faults
          (generateImageId (JSON_stringify runtime_ok) request_bmp) world_empty) = None \<and>
   source_contentType runtime_ok request_bmp = Inr (Some ''bmp'') \<and>
   Some ''bmp'' \<notin> {Some ''jpeg'', Some ''png'', Some ''webp'', Some ''tiff'', Some ''gif'',
                   Some ''avif''} \<and>
   doesProcessedImageExist env_cache no_faults
     (generateImageId (JSON_stringify runtime_ok) request_bmp) world_empty \<noteq> Inr True \<and>
   fst (process runtime_ok env_cache no_faults request_bmp world_empty) =
     Inl (ImageHandlerError BAD_REQUEST ''ImageFormatNotSupported''
            ''The requested image format is not supported.'') \<and>
   snd (process runtime_ok env_cache no_faults request_bmp world_empty) = world_empty"
proof -
  have m: "fst (cache_check runtime_ok env_cache no_faults
          (generateImageId (JSON_stringify runtime_ok) request_bmp) world_empty) = None"
    by (simp add: cache_check_miss [OF miss_empty])
  have n: "Some ''bmp'' \<notin> {Some ''jpeg'', Some ''png'', Some ''webp'', Some ''tiff'', Some ''gif'',
                   Some ''avif''}"
    by simp
  note t = process_unsupported_format [OF m bmp_contentType n]
  from t have r: "fst (process runtime_ok env_cache no_faults request_bmp world_empty) =
     Inl (ImageHandlerError BAD_REQUEST ''ImageFormatNotSupported''
            ''The requested image format is not supported.'')"
    by (rule conjunct1)
  have "doesProcessedImageExist env_cache no_faults
     (generateImageId (JSON_stringify runtime_ok) request_bmp) world_empty \<noteq> Inr True \<longrightarrow>
     snd (process runtime_ok env_cache no_faults request_bmp world_empty) = world_empty"
    by (rule conjunct1 [OF conjunct2 [OF conjunct2 [OF conjunct2 [OF t]]]])
  then have s: "snd (process runtime_ok env_cache no_faults request_bmp world_empty) = world_empty"
    by (rule mp) (rule miss_empty)
  show ?thesis by (intro conjI m bmp_contentType n miss_empty r s)
qed

text \<open>
  C7. With caching enabled, once the conversion to the output format has succeeded,
  \<open>process\<close> returns the formatted bytes in every run: whichever of the upload, the write of
  the metadata record and the write of the failure record fail, no storage error leaves
  \<open>process\<close>.
\<close>

theorem process_storage_failure_swallowed:
  assumes "fst (cache_check rt ev fl (generateImageId (JSON_stringify rt) req) w) = None"
    and "source_contentType rt req = Inr ctype" and "formats_include ctype"
    and "edited_or_passthrough rt req = Inr modifiedImage"
    and "outputFormat req = Some fmt" and "fmt \<in> set ImageFormatTypes"
    and "applyFormatting rt modifiedImage ctype fmt = Inr formatted"
    and "ENABLE_CACHE ev = Some ''Yes''"
  shows "fst (process rt ev fl req w) = Inr formatted"
proof -
  obtain w1 where c: "cache_check rt ev fl (generateImageId (JSON_stringify rt) req) w = (None, w1)"
    using assms(1) by (cases "cache_check rt ev fl (generateImageId (JSON_stringify rt) req) w") auto
  from assms(6) have ne: "fmt \<noteq> []" by (auto simp: ImageFormatTypes_def)
  show ?thesis
    using assms(5-8) ne
    by (simp add: process_after_miss [OF c assms(2-4)] or_default_def formats_include_def
          convert_and_store_def Let_def)
qed

theorem process_storage_failure_swallowed_witness:
  "fst (cache_check runtime_ok env_cache storage_down
          (generateImageId (JSON_stringify runtime_ok) request_cat) world_empty) = None \<and>
   source_contentType runtime_ok request_cat = Inr (Some ''png'') \<and>
   formats_include (Some ''png'') \<and>
   edited_or_passthrough runtime_ok request_cat = Inr [1, 2, 3, 1] \<and>
   outputFormat request_cat = Some ''webp'' \<and> ''webp'' \<in> set ImageFormatTypes \<and>
   applyFormatting runtime_ok [1, 2, 3, 1] (Some ''png'') ''webp'' = Inr [1, 2, 3, 1, 1] \<and>
   ENABLE_CACHE env_cache = Some ''Yes'' \<and> upload_fails storage_down \<and>
   fst (process runtime_ok env_cache storage_down request_cat world_empty) = Inr [1, 2, 3, 1, 1]"
proof -
  have h1: "fst (cache_check runtime_ok env_cache storage_down
          (generateImageId (JSON_stringify runtime_ok) request_cat) world_empty) = None"
    by (simp add: cache_check_miss [OF miss_empty])
  have h2: "source_contentType runtime_ok request_cat = Inr (Some ''png'')"
    by (simp add: source_contentType_def request_cat_def runtime_ok_def)
  have h3: "formats_include (Some ''png'')"
    by (simp add: formats_include_def ImageFormatTypes_def)
  have h5: "outputFormat request_cat = Some ''webp''" by (simp add: request_cat_def)
  have h6: "''webp'' \<in> set ImageFormatTypes" by (simp add: ImageFormatTypes_def)
  have h8: "ENABLE_CACHE env_cache = Some ''Yes''" by (simp add: env_cache_def)
  have h9: "upload_fails storage_down" by (simp add: storage_down_def)
  note p = process_storage_failure_swallowed [OF h1 h2 h3 cat_edited h5 h6 cat_formatted h8]
  show ?thesis by (intro conjI h1 h2 h3 cat_edited h5 h6 cat_formatted h8 h9 p)
qed



subsection \<open>The direct-proxy response\<close>

















subsection \<open>The write-back response\<close>

lemma handler_write_back:
  assumes "ENABLE_S3_OBJECT_LAMBDA ev = Some ''Yes''"
    and "dissect_url lib userRequest = Inr normalizedEvent"
    and "write_response_fails fl"
  shows "\<exists>params.
           writes (handler lib rt ev fl bf second_catch (ObjectLambda userRequest (Some ctx)) w) =
             [params, buildErrorResponseParams rt ctx S3ObjectLambdaWriteError]"
    and "returned (handler lib rt ev fl bf second_catch (ObjectLambda userRequest (Some ctx)) w) =
           (if write_error_response_fails fl then Inl (service_error ''writeGetObjectResponse'')
            else Inr Void)"
  using assms
  by (cases "handleRequest lib rt ev fl normalizedEvent w";
      simp add: handler_def isS3Event_def normalizeEvent_def Let_def)+

lemma S3ObjectLambdaWriteError_body:
  "write_Body (buildErrorResponseParams rt ctx S3ObjectLambdaWriteError) =
     Text (JSON_stringify rt
             (error_val BAD_REQUEST ''S3ObjectLambdaWriteError''
                ''It was not possible to write the response to S3 Object Lambda.''))"
  by (simp add: buildErrorResponseParams_def S3ObjectLambdaWriteError_def getErrorResponse_def)

text \<open>
  C9, amended. In write-back mode, when the first call of \<open>writeGetObjectResponse\<close> fails, the
  handler makes exactly one more call, with the parameters of the error
  \<open>S3ObjectLambdaWriteError\<close> (``It was not possible to write the response to S3 Object
  Lambda.''). The second call is awaited inside the \<open>catch\<close> block without a handler of its
  own: when it succeeds the handler returns, and when it fails its error leaves the handler.
\<close>

theorem handler_write_failure:
  assumes "ENABLE_S3_OBJECT_LAMBDA ev = Some ''Yes''"
    and "dissect_url lib userRequest = Inr normalizedEvent"
    and "write_response_fails fl"
  shows "length (writes (handler lib rt ev fl bf second_catch
                           (ObjectLambda userRequest (Some ctx)) w)) = 2 \<and>
         writes (handler lib rt ev fl bf second_catch (ObjectLambda userRequest (Some ctx)) w) ! 1 =
           buildErrorResponseParams rt ctx S3ObjectLambdaWriteError \<and>
         write_Body (buildErrorResponseParams rt ctx S3ObjectLambdaWriteError) =
           Text (JSON_stringify rt
                   (error_val BAD_REQUEST ''S3ObjectLambdaWriteError''
                      ''It was not possible to write the response to S3 Object Lambda.'')) \<and>
         returned (handler lib rt ev fl bf second_catch (ObjectLambda userRequest (Some ctx)) w) =
           (if write_error_response_fails fl then Inl (service_error ''writeGetObjectResponse'')
            else Inr Void)"
proof -
  from handler_write_back(1) [OF assms] obtain params where
    "writes (handler lib rt ev fl bf second_catch (ObjectLambda userRequest (Some ctx)) w) =
       [params, buildErrorResponseParams rt ctx S3ObjectLambdaWriteError]"
    by blast
  then show ?thesis
    by (simp add: handler_write_back(2) [OF assms] S3ObjectLambdaWriteError_body)
qed

lemma write_back_examples:
  "ENABLE_S3_OBJECT_LAMBDA env_write_back = Some ''Yes''"
  "dissect_url library_write_back u = Inr event_get"
  "write_response_fails first_write_fails" "write_response_fails both_writes_fail"
  "\<not> write_error_response_fails first_write_fails" "write_error_response_fails both_writes_fail"
  by (simp_all add: env_write_back_def library_write_back_def first_write_fails_def
        both_writes_fail_def no_faults_def)

text \<open>The claim as stated fails when both writes fail: the handler throws the error of the
  second write.\<close>

theorem handler_write_failure_counterexample:
  "ENABLE_S3_OBJECT_LAMBDA env_write_back = Some ''Yes'' \<and>
   write_response_fails both_writes_fail \<and> write_error_response_fails both_writes_fail \<and>
   returned (handler library_write_back runtime_ok env_write_back both_writes_fail
               no_batch_faults True event_object_lambda world_empty) =
     Inl (service_error ''writeGetObjectResponse'')"
proof -
  have "returned (handler library_write_back runtime_ok env_write_back both_writes_fail
               no_batch_faults True event_object_lambda world_empty) =
     Inl (service_error ''writeGetObjectResponse'')"
    unfolding event_object_lambda_def
    by (simp add: handler_write_back(2) [OF write_back_examples(1) write_back_examples(2)
          write_back_examples(4)] write_back_examples(6))
  then show ?thesis
    by (intro conjI write_back_examples(1) write_back_examples(4) write_back_examples(6))
qed

theorem handler_write_failure_witness:
  "ENABLE_S3_OBJECT_LAMBDA env_write_back = Some ''Yes'' \<and>
   write_response_fails first_write_fails \<and>
   length (writes (handler library_write_back runtime_ok env_write_back first_write_fails
                     no_batch_faults True event_object_lambda world_empty)) = 2 \<and>
   returned (handler library_write_back runtime_ok env_write_back first_write_fails
               no_batch_faults True event_object_lambda world_empty) = Inr Void"
proof -
  note t = handler_write_failure [OF write_back_examples(1) write_back_examples(2)
      write_back_examples(3), of runtime_ok no_batch_faults True
      "\<lparr>url = ''https://ap.example.com/image/uploads/poster.png'', Host = ''ap.example.com''\<rparr>"
      "\<lparr>outputRoute = ''route-1'', outputToken = ''token-1''\<rparr>" world_empty]
  from t have l: "length (writes (handler library_write_back runtime_ok env_write_back
      first_write_fails no_batch_faults True event_object_lambda world_empty)) = 2"
    unfolding event_object_lambda_def by (rule conjunct1)
  from t have "returned (handler library_write_back runtime_ok env_write_back first_write_fails
               no_batch_faults True event_object_lambda world_empty) =
      (if write_error_response_fails first_write_fails
       then Inl (service_error ''writeGetObjectResponse'') else Inr Void)"
    unfolding event_object_lambda_def by (rule conjunct2 [OF conjunct2 [OF conjunct2]])
  then have r: "returned (handler library_write_back runtime_ok env_write_back first_write_fails
               no_batch_faults True event_object_lambda world_empty) = Inr Void"
    by (simp add: write_back_examples(5))
  show ?thesis by (intro conjI write_back_examples(1) write_back_examples(3) l r)
qed

subsection \<open>Batch ingestion\<close>
















































lemma concat_map2_Cons: "concat (map2 f (x # xs) (y # ys)) = f x y @ concat (map2 f xs ys)"
  by simp


lemma records_started_batch:
  "records_started (concat (map2 (\<lambda>j rcd. Record_started j #
                                  map (\<lambda>tf. Variant_attempted j (tf_suffix tf)) (P j rcd))
                     [i ..< i + length records] records)) = [i ..< i + length records]"
proof (induction records arbitrary: i)
  case Nil
  then show ?case by (simp add: records_started_def)
next
  case (Cons rcd records)
  have u: "[i ..< i + length (rcd # records)] = i # [Suc i ..< Suc i + length records]"
    by (simp add: upt_rec)
  have v: "records_started (map (\<lambda>tf. Variant_attempted i (tf_suffix tf)) (P i rcd)) = []"
    by (induction "P i rcd") (simp_all add: records_started_def)
  have a: "\<And>xs ys. records_started (xs @ ys) = records_started xs @ records_started ys"
    by (simp add: records_started_def)
  have c: "\<And>j xs. records_started (Record_started j # xs) = j # records_started xs"
    by (simp add: records_started_def)
  show ?case
    using Cons.IH [of "Suc i"] by (simp only: u concat_map2_Cons) (simp add: a c v)
qed





















end
